theory Spec2Isabelle
  imports Main "HOL-Library.Word"
begin

unbundle bit_operations_syntax

section \<open>The vmemprof micro-benchmarks\<close>

text \<open>
  Every source file of the repository is one benchmark function over a
  \<^verbatim>\<open>benchmark::State\<close>: it computes its buffer geometry from \<^verbatim>\<open>state.range\<close>,
  prepares its buffers, runs the measured loop \<^verbatim>\<open>for (auto _ : state)\<close> and reports
  three counters. The embedding keeps that shape: the constants of every function are
  HOL functions of the benchmark and its arguments, the code before the loop is
  \<open>prologue\<close>, the loop body is \<open>iteration\<close>, the loop is \<open>run\<close>, and the whole
  function is \<open>benchmark\<close>.

  \<^verbatim>\<open>size_t\<close> is a 64-bit word (the benchmarks address up to 2 GiB of scratch memory and
  16 GB of replicas, and two of them use the 64-bit Windows virtual memory interface),
  \<^verbatim>\<open>uint8_t\<close> an 8-bit word. Offsets into a buffer are natural numbers: a pointer into an
  allocation does not wrap.
\<close>

type_synonym size_t = "64 word"
type_synonym uint8_t = "8 word"

datatype variant =
    Memcpy_32mb_l3
  | Cache_flushing_clflush
  | Memcpy_clflush
  | Memcpy_tlb
  | Memcpy_cpu_flush
  | Memcpy_vmem_tlb_flush
  | Memcpy_baseline_inline
  | Cache_flushing_flush_std_memset
  | Memcpy_cpu_flush_padded
  | Memcpy_copies_padded
  | Memcpy_wip_flush

subsection \<open>Arguments and registrations\<close>

text \<open>
  \<^verbatim>\<open>state.range(i)\<close> is the \<open>i\<close>-th argument of the registration the harness is
  running. \<open>num_args\<close> is how many of them a function reads; \<open>benchmark\<close> below fails
  when the registration supplies fewer.
\<close>

definition state_range :: "int list \<Rightarrow> nat \<Rightarrow> int" where
  "state_range a i = a ! i"

fun num_args :: "variant \<Rightarrow> nat" where
  "num_args Memcpy_32mb_l3 = 1"
| "num_args Cache_flushing_clflush = 0"
| "num_args Memcpy_clflush = 0"
| "num_args Memcpy_tlb = 1"
| "num_args Memcpy_cpu_flush = 1"
| "num_args Memcpy_vmem_tlb_flush = 1"
| "num_args Memcpy_baseline_inline = 0"
| "num_args Cache_flushing_flush_std_memset = 1"
| "num_args Memcpy_cpu_flush_padded = 1"
| "num_args Memcpy_copies_padded = 1"
| "num_args Memcpy_wip_flush = 2"

text \<open>
  The \<^verbatim>\<open>BENCHMARK(...)->Arg(...)\<close> lines: the argument lists every function is
  registered with. A registration without \<^verbatim>\<open>Arg\<close> runs once with no argument.
  \<^verbatim>\<open>memcpy_wip_flush\<close> has only commented-out registrations.
\<close>

fun registered :: "variant \<Rightarrow> int list list" where
  "registered Memcpy_32mb_l3 = [[33], [43], [53]]"
| "registered Cache_flushing_clflush = [[]]"
| "registered Memcpy_clflush = [[]]"
| "registered Memcpy_tlb = [[850], [1500], [2500], [3500]]"
| "registered Memcpy_cpu_flush = [[8], [16], [32]]"
| "registered Memcpy_vmem_tlb_flush = [[40], [68]]"
| "registered Memcpy_baseline_inline = [[]]"
| "registered Cache_flushing_flush_std_memset = [[8], [16], [32]]"
| "registered Memcpy_cpu_flush_padded = [[0], [4], [16], [32], [64], [96]]"
| "registered Memcpy_copies_padded = [[0], [4 * 1024], [16 * 1024 * 1024]]"
| "registered Memcpy_wip_flush = []"

subsection \<open>Buffer geometry\<close>

text \<open>
  The \<^verbatim>\<open>const size_t\<close> locals of the functions, under their source names. An
  expression such as \<^verbatim>\<open>state.range(0) * 1024 * 1024\<close> is computed on \<^verbatim>\<open>int64_t\<close> and
  converted to \<^verbatim>\<open>size_t\<close>: \<open>of_int\<close> is that conversion.
\<close>

definition PAGE_SIZE :: size_t where
  "PAGE_SIZE = 4 * 1024"

definition CACHE_LINE_SIZE :: nat where
  "CACHE_LINE_SIZE = 64"

definition CPU_CACHE_SIZE :: size_t where
  "CPU_CACHE_SIZE = 8 * 1024 * 1024"

definition ONE_GB :: size_t where
  "ONE_GB = 1 * 1024 * 1024 * 1024"

definition TOTAL_COPY_SIZE :: size_t where
  "TOTAL_COPY_SIZE = 401 + 801 + 301"

definition L3_SIZE :: "int list \<Rightarrow> size_t" where
  "L3_SIZE a = of_int (state_range a 0 * 1024 * 1024)"

text \<open>\<^verbatim>\<open>memcpy_vmem_tlb_flush\<close>: \<^verbatim>\<open>PADDING_SIZE = state.range(0) * 1024\<close>.\<close>

definition PADDING_SIZE :: "int list \<Rightarrow> size_t" where
  "PADDING_SIZE a = of_int (state_range a 0 * 1024)"

text \<open>\<^verbatim>\<open>memcpy_copies_padded\<close>: \<^verbatim>\<open>SOURCE_PADDING_SIZE = state.range(0)\<close>.\<close>

definition SOURCE_PADDING_SIZE :: "int list \<Rightarrow> size_t" where
  "SOURCE_PADDING_SIZE a = of_int (state_range a 0)"

definition INPUT_BUFFER_ALIGNMENT :: size_t where
  "INPUT_BUFFER_ALIGNMENT = 2 * 1024 * 1024"

text \<open>
  \<open>SOURCE_SIZE\<close> is the size of the source buffer, which is the number of bytes every
  replica is filled with (\<^verbatim>\<open>BUFFER_SIZE\<close> in \<^verbatim>\<open>cache_flushing_clflush\<close>). Division on
  words is the unsigned division of \<^verbatim>\<open>size_t\<close>.
\<close>

fun SOURCE_SIZE :: "variant \<Rightarrow> int list \<Rightarrow> size_t" where
  "SOURCE_SIZE Memcpy_tlb a = (17234 + PAGE_SIZE - 1) AND NOT (PAGE_SIZE - 1)"
| "SOURCE_SIZE Memcpy_vmem_tlb_flush a = (17234 + PADDING_SIZE a - 1) div PADDING_SIZE a"
| "SOURCE_SIZE v a = 17234"

text \<open>\<^verbatim>\<open>PADDED_SOURCE_SIZE\<close> of \<^verbatim>\<open>memcpy_copies_padded\<close>.\<close>

definition PADDED_SOURCE_SIZE :: "int list \<Rightarrow> size_t" where
  "PADDED_SOURCE_SIZE a =
     (if SOURCE_PADDING_SIZE a \<noteq> 0
      then (SOURCE_SIZE Memcpy_copies_padded a + SOURCE_PADDING_SIZE a - 1)
             AND NOT (SOURCE_PADDING_SIZE a - 1)
      else SOURCE_SIZE Memcpy_copies_padded a)"

text \<open>
  The benchmarks with a rotation cursor keep \<open>NUM_COPIES\<close> replicas. The three others
  read one input buffer and report a \<^verbatim>\<open>NumCopies\<close> counter of 1.
\<close>

fun rotating :: "variant \<Rightarrow> bool" where
  "rotating Cache_flushing_clflush = False"
| "rotating Memcpy_clflush = False"
| "rotating Memcpy_baseline_inline = False"
| "rotating v = True"

fun NUM_COPIES :: "variant \<Rightarrow> int list \<Rightarrow> size_t" where
  "NUM_COPIES Memcpy_32mb_l3 a = L3_SIZE a div TOTAL_COPY_SIZE"
| "NUM_COPIES Memcpy_tlb a = of_int (state_range a 0)"
| "NUM_COPIES Memcpy_vmem_tlb_flush a = 32"
| "NUM_COPIES Cache_flushing_clflush a = 1"
| "NUM_COPIES Memcpy_clflush a = 1"
| "NUM_COPIES Memcpy_baseline_inline a = 1"
| "NUM_COPIES v a = 1000"

text \<open>
  The distance between two replicas: \<^verbatim>\<open>copies[i] = base + i * stride\<close>, where the
  stride is \<^verbatim>\<open>PADDED_SOURCE_SIZE\<close> in \<^verbatim>\<open>memcpy_copies_padded\<close> and \<^verbatim>\<open>SOURCE_SIZE\<close>
  elsewhere. \<open>copies v a i\<close> is the offset of \<^verbatim>\<open>copies[i]\<close> from the (aligned) start of
  the input buffer; a benchmark without replicas reads its input buffer itself.
\<close>

fun replica_stride :: "variant \<Rightarrow> int list \<Rightarrow> size_t" where
  "replica_stride Memcpy_copies_padded a = PADDED_SOURCE_SIZE a"
| "replica_stride v a = SOURCE_SIZE v a"

definition copies :: "variant \<Rightarrow> int list \<Rightarrow> size_t \<Rightarrow> nat" where
  "copies v a i = unat (i * replica_stride v a)"

fun INPUT_BUFFER_SIZE :: "variant \<Rightarrow> int list \<Rightarrow> size_t" where
  "INPUT_BUFFER_SIZE Memcpy_32mb_l3 a =
     SOURCE_SIZE Memcpy_32mb_l3 a * NUM_COPIES Memcpy_32mb_l3 a"
| "INPUT_BUFFER_SIZE Memcpy_vmem_tlb_flush a =
     SOURCE_SIZE Memcpy_vmem_tlb_flush a * NUM_COPIES Memcpy_vmem_tlb_flush a + PADDING_SIZE a"
| "INPUT_BUFFER_SIZE Memcpy_copies_padded a =
     PADDED_SOURCE_SIZE a * NUM_COPIES Memcpy_copies_padded a + INPUT_BUFFER_ALIGNMENT"
| "INPUT_BUFFER_SIZE Cache_flushing_clflush a = SOURCE_SIZE Cache_flushing_clflush a"
| "INPUT_BUFFER_SIZE Memcpy_clflush a = SOURCE_SIZE Memcpy_clflush a"
| "INPUT_BUFFER_SIZE Memcpy_baseline_inline a = SOURCE_SIZE Memcpy_baseline_inline a"
| "INPUT_BUFFER_SIZE v a = SOURCE_SIZE v a * NUM_COPIES v a + PAGE_SIZE"

text \<open>
  The flush buffer of the capacity-eviction benchmarks: its size, the padding in
  front of the region that is overwritten, and the size with the padding on both
  sides.
\<close>

fun capacity_eviction :: "variant \<Rightarrow> bool" where
  "capacity_eviction Cache_flushing_flush_std_memset = True"
| "capacity_eviction Memcpy_cpu_flush = True"
| "capacity_eviction Memcpy_cpu_flush_padded = True"
| "capacity_eviction Memcpy_copies_padded = True"
| "capacity_eviction Memcpy_wip_flush = True"
| "capacity_eviction v = False"

fun page_protection :: "variant \<Rightarrow> bool" where
  "page_protection Memcpy_vmem_tlb_flush = True"
| "page_protection Memcpy_wip_flush = True"
| "page_protection v = False"

fun FLUSH_BUFFER_SIZE :: "variant \<Rightarrow> int list \<Rightarrow> size_t" where
  "FLUSH_BUFFER_SIZE Memcpy_cpu_flush a = of_int (state_range a 0 * 1024 * 1024 * 4)"
| "FLUSH_BUFFER_SIZE Cache_flushing_flush_std_memset a = of_int (state_range a 0 * 1024 * 1024) * 4"
| "FLUSH_BUFFER_SIZE Memcpy_cpu_flush_padded a = CPU_CACHE_SIZE * 4"
| "FLUSH_BUFFER_SIZE Memcpy_copies_padded a = CPU_CACHE_SIZE * 4"
| "FLUSH_BUFFER_SIZE Memcpy_wip_flush a = of_int (state_range a 0 * 1024 * 1024 * 4)"
| "FLUSH_BUFFER_SIZE v a = 0"

fun VMEM_PADDING :: "variant \<Rightarrow> int list \<Rightarrow> size_t" where
  "VMEM_PADDING Memcpy_cpu_flush_padded a = of_int (state_range a 0 * 1024 * 1024)"
| "VMEM_PADDING Memcpy_copies_padded a = 16 * 1024 * 1024"
| "VMEM_PADDING Memcpy_wip_flush a = of_int (state_range a 1 * 1024 * 1024)"
| "VMEM_PADDING v a = 0"

definition PADDED_FLUSH_BUFFER_SIZE :: "variant \<Rightarrow> int list \<Rightarrow> size_t" where
  "PADDED_FLUSH_BUFFER_SIZE v a = FLUSH_BUFFER_SIZE v a + VMEM_PADDING v a * 2"

text \<open>The \<^verbatim>\<open>volatile size_t\<close> copy sizes; \<^verbatim>\<open>memcpy_size\<close> where there is one copy.\<close>

definition memcpy_size :: nat where "memcpy_size = 401"
definition memcpy_size0 :: nat where "memcpy_size0 = 401"
definition memcpy_size1 :: nat where "memcpy_size1 = 801"
definition memcpy_size2 :: nat where "memcpy_size2 = 301"
definition memcpy_size3 :: nat where "memcpy_size3 = 501"

subsection \<open>What a run does\<close>

text \<open>
  A run is observed as the sequence of its memory operations:
  \<^item> \<open>Copy dst src n\<close>: \<^verbatim>\<open>memcpy(output_buffer + dst, input + src, n)\<close> (the library's, or
    \<^verbatim>\<open>memcpy_impl\<close> in \<^verbatim>\<open>memcpy_copies_padded\<close>); it reads the \<open>n\<close> bytes from offset
    \<open>src\<close> of the input buffer and writes the \<open>n\<close> bytes from offset \<open>dst\<close> of the
    output buffer;
  \<^item> \<open>Fill off n b\<close>: the \<open>n\<close> bytes from offset \<open>off\<close> of the flush buffer are
    overwritten with \<open>b\<close>;
  \<^item> \<open>Protect n p\<close>: \<^verbatim>\<open>VirtualProtect\<close> of the \<open>n\<close> bytes of the replica region to \<open>p\<close>;
  \<^item> \<open>Clflush off\<close>: \<^verbatim>\<open>_mm_clflush(input_buffer + off)\<close>;
  \<^item> \<open>Sleep_for n\<close>: the one nanosecond sleep of \<^verbatim>\<open>memcpy_clflush\<close>;
  \<^item> \<open>Set_iteration_time d\<close>: \<^verbatim>\<open>state.SetIterationTime\<close> with the difference \<open>d\<close> of the two
    clock readings of the iteration.
\<close>

datatype protection = PAGE_NOACCESS | PAGE_READWRITE

datatype event =
    Copy nat nat nat
  | Fill nat nat uint8_t
  | Protect nat protection
  | Clflush nat
  | Sleep_for nat
  | Set_iteration_time int

text \<open>
  The locals the loop changes: the rotation cursor, the fill counter and the contents
  of the flush buffer (a byte for every offset).
\<close>

record locals =
  copy_index :: size_t
  flush_value :: uint8_t
  flush_buffer :: "nat \<Rightarrow> uint8_t"

text \<open>
  \<^verbatim>\<open>for (uint8_t* ptr = buffer; ptr < buffer + buffer_size; ++ptr) *ptr = value;\<close>
\<close>

function memset_loop :: "(nat \<Rightarrow> uint8_t) \<Rightarrow> nat \<Rightarrow> nat \<Rightarrow> uint8_t \<Rightarrow> nat \<Rightarrow> uint8_t" where
  "memset_loop mem ptr bound b =
     (if ptr < bound then memset_loop (mem(ptr := b)) (ptr + 1) bound b else mem)"
  by pat_completeness auto
termination
  by (relation "measure (\<lambda>(mem, ptr, bound, b). bound - ptr)") auto

declare memset_loop.simps [simp del]

definition memset_impl :: "(nat \<Rightarrow> uint8_t) \<Rightarrow> nat \<Rightarrow> size_t \<Rightarrow> uint8_t \<Rightarrow> nat \<Rightarrow> uint8_t" where
  "memset_impl mem buffer buffer_size b = memset_loop mem buffer (buffer + unat buffer_size) b"

text \<open>
  The library's \<^verbatim>\<open>std::memset(dest, ch, count)\<close>, by its contract: the \<open>count\<close> bytes from
  \<open>dest\<close> become \<open>ch\<close>.
\<close>

definition std_memset :: "(nat \<Rightarrow> uint8_t) \<Rightarrow> nat \<Rightarrow> uint8_t \<Rightarrow> size_t \<Rightarrow> nat \<Rightarrow> uint8_t" where
  "std_memset mem dest ch count =
     (\<lambda>i. if dest \<le> i \<and> i < dest + unat count then ch else mem i)"

text \<open>
  \<^verbatim>\<open>for (const uint8_t* ptr = input_buffer; ptr < input_buffer + SIZE; ptr += CACHE_LINE_SIZE)\<close>
  \<^verbatim>\<open>    _mm_clflush(ptr);\<close>
  The result lists the pointers that are flushed, in order.
\<close>

function clflush_loop :: "nat \<Rightarrow> nat \<Rightarrow> nat list" where
  "clflush_loop ptr bound =
     (if ptr < bound then ptr # clflush_loop (ptr + CACHE_LINE_SIZE) bound else [])"
  by pat_completeness auto
termination
  by (relation "measure (\<lambda>(ptr, bound). bound - ptr)") (auto simp: CACHE_LINE_SIZE_def)

declare clflush_loop.simps [simp del]

text \<open>The three copies that eight of the benchmarks share, from the replica at \<open>buffer\<close>.\<close>

definition three_copies :: "nat \<Rightarrow> event list" where
  "three_copies buffer =
     [Copy 0 (buffer + 102) memcpy_size0,
      Copy memcpy_size0 (buffer + 6402) memcpy_size1,
      Copy (memcpy_size0 + memcpy_size1) (buffer + 16586) memcpy_size2]"

subsection \<open>The measured loop, one function at a time\<close>

text \<open>
  Each definition is the body of \<^verbatim>\<open>for (auto _ : state)\<close> of one function: it takes the
  locals at the start of the iteration and returns the operations of the iteration, in
  program order, and the locals at its end. \<^verbatim>\<open>copies[copy_index++]\<close> reads the replica
  at the cursor and advances the cursor. The functions with manual timing take the two
  clock readings \<open>t = (start, end)\<close> of the iteration, which the code reads around the
  copies.
\<close>

definition memcpy_32mb_l3_iteration :: "int list \<Rightarrow> locals \<Rightarrow> event list \<times> locals" where
  "memcpy_32mb_l3_iteration a s =
     (let buffer = copies Memcpy_32mb_l3 a (copy_index s);
          next_index = copy_index s + 1
      in (three_copies buffer,
          s\<lparr>copy_index := (if next_index \<ge> NUM_COPIES Memcpy_32mb_l3 a then 0 else next_index)\<rparr>))"

definition cache_flushing_clflush_iteration :: "int list \<Rightarrow> locals \<Rightarrow> int \<times> int \<Rightarrow> event list \<times> locals" where
  "cache_flushing_clflush_iteration a s t =
     ([Copy 0 (0 + 102) memcpy_size] @
      map Clflush (clflush_loop 0 (0 + unat (SOURCE_SIZE Cache_flushing_clflush a))) @
      [Set_iteration_time (snd t - fst t)], s)"

definition memcpy_clflush_iteration :: "int list \<Rightarrow> locals \<Rightarrow> int \<times> int \<Rightarrow> event list \<times> locals" where
  "memcpy_clflush_iteration a s t =
     (three_copies 0 @
      map Clflush (clflush_loop 0 (0 + unat (SOURCE_SIZE Memcpy_clflush a))) @
      [Sleep_for 1, Set_iteration_time (snd t - fst t)], s)"

definition memcpy_tlb_iteration :: "int list \<Rightarrow> locals \<Rightarrow> event list \<times> locals" where
  "memcpy_tlb_iteration a s =
     (let buffer = copies Memcpy_tlb a (copy_index s);
          next_index = copy_index s + 1
      in (three_copies buffer,
          s\<lparr>copy_index := (if next_index \<ge> NUM_COPIES Memcpy_tlb a then 0 else next_index)\<rparr>))"

definition memcpy_cpu_flush_iteration :: "int list \<Rightarrow> locals \<Rightarrow> int \<times> int \<Rightarrow> event list \<times> locals" where
  "memcpy_cpu_flush_iteration a s t =
     (let buffer = copies Memcpy_cpu_flush a (copy_index s);
          next_index = copy_index s + 1;
          copied = three_copies buffer
      in if next_index \<ge> NUM_COPIES Memcpy_cpu_flush a
         then (copied @
                [Fill (unat (VMEM_PADDING Memcpy_cpu_flush a)) (unat (FLUSH_BUFFER_SIZE Memcpy_cpu_flush a)) (flush_value s),
                 Set_iteration_time (snd t - fst t)],
               s\<lparr>copy_index := 0,
                 flush_value := flush_value s + 1,
                 flush_buffer := memset_impl (flush_buffer s) (unat (VMEM_PADDING Memcpy_cpu_flush a)) (FLUSH_BUFFER_SIZE Memcpy_cpu_flush a) (flush_value s)\<rparr>)
         else (copied @ [Set_iteration_time (snd t - fst t)], s\<lparr>copy_index := next_index\<rparr>))"

text \<open>
  \<^verbatim>\<open>memcpy_vmem_tlb_flush\<close> resets the cursor and then revokes and restores the access
  rights of the whole input buffer.
\<close>

definition memcpy_vmem_tlb_flush_iteration :: "int list \<Rightarrow> locals \<Rightarrow> int \<times> int \<Rightarrow> event list \<times> locals" where
  "memcpy_vmem_tlb_flush_iteration a s t =
     (let buffer = copies Memcpy_vmem_tlb_flush a (copy_index s);
          next_index = copy_index s + 1;
          copied = three_copies buffer
      in if next_index \<ge> NUM_COPIES Memcpy_vmem_tlb_flush a
         then (copied @
                [Protect (unat (INPUT_BUFFER_SIZE Memcpy_vmem_tlb_flush a)) PAGE_NOACCESS,
                 Protect (unat (INPUT_BUFFER_SIZE Memcpy_vmem_tlb_flush a)) PAGE_READWRITE,
                 Set_iteration_time (snd t - fst t)],
               s\<lparr>copy_index := 0\<rparr>)
         else (copied @ [Set_iteration_time (snd t - fst t)], s\<lparr>copy_index := next_index\<rparr>))"

definition memcpy_baseline_inline_iteration :: "int list \<Rightarrow> locals \<Rightarrow> event list \<times> locals" where
  "memcpy_baseline_inline_iteration a s = (three_copies 0, s)"

definition cache_flushing_flush_std_memset_iteration :: "int list \<Rightarrow> locals \<Rightarrow> int \<times> int \<Rightarrow> event list \<times> locals" where
  "cache_flushing_flush_std_memset_iteration a s t =
     (let buffer = copies Cache_flushing_flush_std_memset a (copy_index s);
          next_index = copy_index s + 1;
          copied = [Copy 0 (buffer + 102) memcpy_size]
      in if next_index \<ge> NUM_COPIES Cache_flushing_flush_std_memset a
         then (copied @
                [Fill (unat (VMEM_PADDING Cache_flushing_flush_std_memset a)) (unat (FLUSH_BUFFER_SIZE Cache_flushing_flush_std_memset a)) (flush_value s),
                 Set_iteration_time (snd t - fst t)],
               s\<lparr>copy_index := 0,
                 flush_value := flush_value s + 1,
                 flush_buffer := std_memset (flush_buffer s) (unat (VMEM_PADDING Cache_flushing_flush_std_memset a)) (flush_value s) (FLUSH_BUFFER_SIZE Cache_flushing_flush_std_memset a)\<rparr>)
         else (copied @ [Set_iteration_time (snd t - fst t)], s\<lparr>copy_index := next_index\<rparr>))"

definition memcpy_cpu_flush_padded_iteration :: "int list \<Rightarrow> locals \<Rightarrow> int \<times> int \<Rightarrow> event list \<times> locals" where
  "memcpy_cpu_flush_padded_iteration a s t =
     (let buffer = copies Memcpy_cpu_flush_padded a (copy_index s);
          next_index = copy_index s + 1;
          copied = three_copies buffer
      in if next_index \<ge> NUM_COPIES Memcpy_cpu_flush_padded a
         then (copied @
                [Fill (unat (VMEM_PADDING Memcpy_cpu_flush_padded a)) (unat (FLUSH_BUFFER_SIZE Memcpy_cpu_flush_padded a)) (flush_value s),
                 Set_iteration_time (snd t - fst t)],
               s\<lparr>copy_index := 0,
                 flush_value := flush_value s + 1,
                 flush_buffer := memset_impl (flush_buffer s) (unat (VMEM_PADDING Memcpy_cpu_flush_padded a)) (FLUSH_BUFFER_SIZE Memcpy_cpu_flush_padded a) (flush_value s)\<rparr>)
         else (copied @ [Set_iteration_time (snd t - fst t)], s\<lparr>copy_index := next_index\<rparr>))"

text \<open>
  \<^verbatim>\<open>memcpy_copies_padded\<close> makes four copies with \<^verbatim>\<open>memcpy_impl\<close>; the copy of
  \<^verbatim>\<open>memcpy_size3\<close> bytes is the third call.
\<close>

definition four_copies :: "nat \<Rightarrow> event list" where
  "four_copies buffer =
     [Copy 0 (buffer + 102) memcpy_size0,
      Copy memcpy_size0 (buffer + 6402) memcpy_size1,
      Copy (memcpy_size0 + memcpy_size1 + memcpy_size2) (buffer + 12308) memcpy_size3,
      Copy (memcpy_size0 + memcpy_size1) (buffer + 16586) memcpy_size2]"

definition memcpy_copies_padded_iteration :: "int list \<Rightarrow> locals \<Rightarrow> int \<times> int \<Rightarrow> event list \<times> locals" where
  "memcpy_copies_padded_iteration a s t =
     (let buffer = copies Memcpy_copies_padded a (copy_index s);
          next_index = copy_index s + 1;
          copied = four_copies buffer
      in if next_index \<ge> NUM_COPIES Memcpy_copies_padded a
         then (copied @
                [Fill (unat (VMEM_PADDING Memcpy_copies_padded a)) (unat (FLUSH_BUFFER_SIZE Memcpy_copies_padded a)) (flush_value s),
                 Set_iteration_time (snd t - fst t)],
               s\<lparr>copy_index := 0,
                 flush_value := flush_value s + 1,
                 flush_buffer := memset_impl (flush_buffer s) (unat (VMEM_PADDING Memcpy_copies_padded a)) (FLUSH_BUFFER_SIZE Memcpy_copies_padded a) (flush_value s)\<rparr>)
         else (copied @ [Set_iteration_time (snd t - fst t)], s\<lparr>copy_index := next_index\<rparr>))"

text \<open>
  \<^verbatim>\<open>memcpy_wip_flush\<close> revokes and restores the access rights of the first gigabyte of
  its scratch buffer (which holds the replicas) before it overwrites the flush region.
\<close>

definition memcpy_wip_flush_iteration :: "int list \<Rightarrow> locals \<Rightarrow> int \<times> int \<Rightarrow> event list \<times> locals" where
  "memcpy_wip_flush_iteration a s t =
     (let buffer = copies Memcpy_wip_flush a (copy_index s);
          next_index = copy_index s + 1;
          copied = three_copies buffer
      in if next_index \<ge> NUM_COPIES Memcpy_wip_flush a
         then (copied @
                [Protect (unat ONE_GB) PAGE_NOACCESS, Protect (unat ONE_GB) PAGE_READWRITE] @
                [Fill (unat (VMEM_PADDING Memcpy_wip_flush a)) (unat (FLUSH_BUFFER_SIZE Memcpy_wip_flush a)) (flush_value s),
                 Set_iteration_time (snd t - fst t)],
               s\<lparr>copy_index := 0,
                 flush_value := flush_value s + 1,
                 flush_buffer := memset_impl (flush_buffer s) (unat (VMEM_PADDING Memcpy_wip_flush a)) (FLUSH_BUFFER_SIZE Memcpy_wip_flush a) (flush_value s)\<rparr>)
         else (copied @ [Set_iteration_time (snd t - fst t)], s\<lparr>copy_index := next_index\<rparr>))"

fun iteration :: "variant \<Rightarrow> int list \<Rightarrow> locals \<Rightarrow> int \<times> int \<Rightarrow> event list \<times> locals" where
  "iteration Memcpy_32mb_l3 a s t = memcpy_32mb_l3_iteration a s"
| "iteration Cache_flushing_clflush a s t = cache_flushing_clflush_iteration a s t"
| "iteration Memcpy_clflush a s t = memcpy_clflush_iteration a s t"
| "iteration Memcpy_tlb a s t = memcpy_tlb_iteration a s"
| "iteration Memcpy_cpu_flush a s t = memcpy_cpu_flush_iteration a s t"
| "iteration Memcpy_vmem_tlb_flush a s t = memcpy_vmem_tlb_flush_iteration a s t"
| "iteration Memcpy_baseline_inline a s t = memcpy_baseline_inline_iteration a s"
| "iteration Cache_flushing_flush_std_memset a s t = cache_flushing_flush_std_memset_iteration a s t"
| "iteration Memcpy_cpu_flush_padded a s t = memcpy_cpu_flush_padded_iteration a s t"
| "iteration Memcpy_copies_padded a s t = memcpy_copies_padded_iteration a s t"
| "iteration Memcpy_wip_flush a s t = memcpy_wip_flush_iteration a s t"

subsection \<open>Before the loop\<close>

text \<open>
  The code between the allocations and the loop: the cursor and the fill counter start
  at 0, and the capacity-eviction functions overwrite the flush region once
  (\<^verbatim>\<open>flush_value++\<close> passes the counter and then increments it). \<open>mem\<close> is what the
  flush buffer holds when it is allocated.
\<close>

fun prologue :: "variant \<Rightarrow> int list \<Rightarrow> (nat \<Rightarrow> uint8_t) \<Rightarrow> event list \<times> locals" where
  "prologue Cache_flushing_flush_std_memset a mem =
     ([Fill 0 (unat (FLUSH_BUFFER_SIZE Cache_flushing_flush_std_memset a)) 0],
      \<lparr>copy_index = 0, flush_value = 0 + 1,
       flush_buffer = std_memset mem 0 0 (FLUSH_BUFFER_SIZE Cache_flushing_flush_std_memset a)\<rparr>)"
| "prologue Memcpy_cpu_flush a mem =
     ([Fill 0 (unat (FLUSH_BUFFER_SIZE Memcpy_cpu_flush a)) 0],
      \<lparr>copy_index = 0, flush_value = 0 + 1,
       flush_buffer = memset_impl mem 0 (FLUSH_BUFFER_SIZE Memcpy_cpu_flush a) 0\<rparr>)"
| "prologue Memcpy_cpu_flush_padded a mem =
     ([Fill (unat (VMEM_PADDING Memcpy_cpu_flush_padded a))
            (unat (FLUSH_BUFFER_SIZE Memcpy_cpu_flush_padded a)) 0],
      \<lparr>copy_index = 0, flush_value = 0 + 1,
       flush_buffer = memset_impl mem (unat (VMEM_PADDING Memcpy_cpu_flush_padded a))
                        (FLUSH_BUFFER_SIZE Memcpy_cpu_flush_padded a) 0\<rparr>)"
| "prologue Memcpy_copies_padded a mem =
     ([Fill (unat (VMEM_PADDING Memcpy_copies_padded a))
            (unat (FLUSH_BUFFER_SIZE Memcpy_copies_padded a)) 0],
      \<lparr>copy_index = 0, flush_value = 0 + 1,
       flush_buffer = memset_impl mem (unat (VMEM_PADDING Memcpy_copies_padded a))
                        (FLUSH_BUFFER_SIZE Memcpy_copies_padded a) 0\<rparr>)"
| "prologue Memcpy_wip_flush a mem =
     ([Protect (unat ONE_GB) PAGE_NOACCESS, Protect (unat ONE_GB) PAGE_READWRITE,
       Fill (unat (VMEM_PADDING Memcpy_wip_flush a))
            (unat (FLUSH_BUFFER_SIZE Memcpy_wip_flush a)) 0],
      \<lparr>copy_index = 0, flush_value = 0 + 1,
       flush_buffer = memset_impl mem (unat (VMEM_PADDING Memcpy_wip_flush a))
                        (FLUSH_BUFFER_SIZE Memcpy_wip_flush a) 0\<rparr>)"
| "prologue v a mem = ([], \<lparr>copy_index = 0, flush_value = 0, flush_buffer = mem\<rparr>)"

subsection \<open>The loop and the whole function\<close>

text \<open>
  The harness decides how often the loop runs. \<open>ts\<close> holds the clock readings of the
  iterations, one pair for each, so its length is the iteration count. \<open>run\<close> returns
  the operations of every iteration and the locals after the last one.
\<close>

fun run :: "variant \<Rightarrow> int list \<Rightarrow> locals \<Rightarrow> (int \<times> int) list \<Rightarrow> event list list \<times> locals" where
  "run v a s [] = ([], s)"
| "run v a s (t # ts) =
     (let (es, s') = iteration v a s t;
          (ess, s'') = run v a s' ts
      in (es # ess, s''))"

definition locals_after :: "variant \<Rightarrow> int list \<Rightarrow> (nat \<Rightarrow> uint8_t) \<Rightarrow> (int \<times> int) list \<Rightarrow> locals" where
  "locals_after v a mem ts = snd (run v a (snd (prologue v a mem)) ts)"

definition iteration_events :: "variant \<Rightarrow> int list \<Rightarrow> (nat \<Rightarrow> uint8_t) \<Rightarrow> (int \<times> int) list \<Rightarrow> nat \<Rightarrow> event list" where
  "iteration_events v a mem ts k = fst (run v a (snd (prologue v a mem)) ts) ! k"

definition trace_of :: "variant \<Rightarrow> int list \<Rightarrow> (nat \<Rightarrow> uint8_t) \<Rightarrow> (int \<times> int) list \<Rightarrow> event list" where
  "trace_of v a mem ts =
     fst (prologue v a mem) @ concat (fst (run v a (snd (prologue v a mem)) ts))"

text \<open>
  The counters a function reports after the loop. A counter holds a \<^verbatim>\<open>double\<close>, and
  the sizes it is given are converted from \<^verbatim>\<open>size_t\<close>. A \<^verbatim>\<open>double\<close> has 53 significant
  bits: the conversion keeps a number below \<open>2 ^ 53\<close> and rounds a larger one to the
  nearest multiple of \<open>2 ^ e\<close>, where \<open>e\<close> is the number of bits that do not fit, a tie
  going to the even multiple. The result is again a whole number, so a counter is
  modelled by the natural number it holds.
\<close>

function double_shift :: "nat \<Rightarrow> nat" where
  "double_shift n = (if n < 2 ^ 53 then 0 else Suc (double_shift (n div 2)))"
  by pat_completeness auto
termination
  by (relation "measure (\<lambda>n. n)") auto

declare double_shift.simps [simp del]

definition to_double :: "nat \<Rightarrow> nat" where
  "to_double n =
     (let e = double_shift n; q = n div 2 ^ e; r = n mod 2 ^ e
      in if 2 * r < 2 ^ e \<or> (2 * r = 2 ^ e \<and> even q) then q * 2 ^ e else (q + 1) * 2 ^ e)"

datatype counter_flags = kDefaults | kIsIterationInvariantRate

datatype OneK = kIs1000 | kIs1024

record counter =
  amount :: nat
  flags :: counter_flags
  oneK :: OneK

fun speed_counter :: "variant \<Rightarrow> counter" where
  "speed_counter Memcpy_32mb_l3 = \<lparr>amount = 1503, flags = kIsIterationInvariantRate, oneK = kIs1024\<rparr>"
| "speed_counter Cache_flushing_clflush = \<lparr>amount = 1503, flags = kIsIterationInvariantRate, oneK = kIs1024\<rparr>"
| "speed_counter Memcpy_clflush = \<lparr>amount = 1503, flags = kIsIterationInvariantRate, oneK = kIs1024\<rparr>"
| "speed_counter Memcpy_tlb = \<lparr>amount = 1503, flags = kIsIterationInvariantRate, oneK = kIs1024\<rparr>"
| "speed_counter Memcpy_cpu_flush = \<lparr>amount = 1503, flags = kIsIterationInvariantRate, oneK = kIs1024\<rparr>"
| "speed_counter Memcpy_vmem_tlb_flush = \<lparr>amount = 1503, flags = kIsIterationInvariantRate, oneK = kIs1024\<rparr>"
| "speed_counter Memcpy_baseline_inline = \<lparr>amount = 1503, flags = kIsIterationInvariantRate, oneK = kIs1024\<rparr>"
| "speed_counter Cache_flushing_flush_std_memset = \<lparr>amount = 1503, flags = kIsIterationInvariantRate, oneK = kIs1024\<rparr>"
| "speed_counter Memcpy_cpu_flush_padded = \<lparr>amount = 1503, flags = kIsIterationInvariantRate, oneK = kIs1024\<rparr>"
| "speed_counter Memcpy_copies_padded = \<lparr>amount = 1503, flags = kIsIterationInvariantRate, oneK = kIs1024\<rparr>"
| "speed_counter Memcpy_wip_flush = \<lparr>amount = 1503, flags = kIsIterationInvariantRate, oneK = kIs1024\<rparr>"

fun allocated :: "variant \<Rightarrow> int list \<Rightarrow> size_t" where
  "allocated Memcpy_cpu_flush a = FLUSH_BUFFER_SIZE Memcpy_cpu_flush a + INPUT_BUFFER_SIZE Memcpy_cpu_flush a"
| "allocated Cache_flushing_flush_std_memset a =
     FLUSH_BUFFER_SIZE Cache_flushing_flush_std_memset a + INPUT_BUFFER_SIZE Cache_flushing_flush_std_memset a"
| "allocated Memcpy_cpu_flush_padded a =
     PADDED_FLUSH_BUFFER_SIZE Memcpy_cpu_flush_padded a + INPUT_BUFFER_SIZE Memcpy_cpu_flush_padded a"
| "allocated Memcpy_copies_padded a =
     PADDED_FLUSH_BUFFER_SIZE Memcpy_copies_padded a + INPUT_BUFFER_SIZE Memcpy_copies_padded a"
| "allocated Memcpy_wip_flush a =
     PADDED_FLUSH_BUFFER_SIZE Memcpy_wip_flush a + INPUT_BUFFER_SIZE Memcpy_wip_flush a"
| "allocated v a = INPUT_BUFFER_SIZE v a"

definition counters :: "variant \<Rightarrow> int list \<Rightarrow> (string \<times> counter) list" where
  "counters v a =
     [(''Speed'', speed_counter v),
      (''NumCopies'', \<lparr>amount = to_double (unat (NUM_COPIES v a)), flags = kDefaults, oneK = kIs1000\<rparr>),
      (''Allocated'', \<lparr>amount = to_double (unat (allocated v a)), flags = kDefaults, oneK = kIs1024\<rparr>)]"

subsection \<open>What stops a function before it reports\<close>

text \<open>
  The arguments are \<^verbatim>\<open>int64_t\<close> values, and the products of an argument with the
  constants are computed on \<^verbatim>\<open>int64_t\<close> before the conversion to \<^verbatim>\<open>size_t\<close>.
  \<open>int64_values\<close> lists the arguments a function reads without a product and the
  products it computes; a value outside \<^verbatim>\<open>int64_t\<close> is an overflow.
\<close>

definition in_int64 :: "int \<Rightarrow> bool" where
  "in_int64 x = (- (2 ^ 63) \<le> x \<and> x < 2 ^ 63)"

fun int64_values :: "variant \<Rightarrow> int list \<Rightarrow> int list" where
  "int64_values Memcpy_32mb_l3 a = [state_range a 0 * 1024 * 1024]"
| "int64_values Memcpy_tlb a = [state_range a 0]"
| "int64_values Memcpy_cpu_flush a = [state_range a 0 * 1024 * 1024 * 4]"
| "int64_values Memcpy_vmem_tlb_flush a = [state_range a 0 * 1024]"
| "int64_values Cache_flushing_flush_std_memset a = [state_range a 0 * 1024 * 1024]"
| "int64_values Memcpy_cpu_flush_padded a = [state_range a 0 * 1024 * 1024]"
| "int64_values Memcpy_copies_padded a = [state_range a 0]"
| "int64_values Memcpy_wip_flush a =
     [state_range a 0 * 1024 * 1024 * 4, state_range a 1 * 1024 * 1024]"
| "int64_values v a = []"

text \<open>
  The sizes a function asks the allocator for, in bytes and in program order
  (\<^verbatim>\<open>new[]\<close>, and \<^verbatim>\<open>VirtualAlloc\<close> in \<^verbatim>\<open>memcpy_vmem_tlb_flush\<close>): the source buffer, the
  input buffer, the array of replica pointers where it is on the heap, and the flush
  buffer. Whether a request is granted is the environment's decision; a function whose
  request is refused does not go on.
\<close>

definition SCRATCH_BUFFER_SIZE :: size_t where
  "SCRATCH_BUFFER_SIZE = 2 * ONE_GB"

fun requested :: "variant \<Rightarrow> int list \<Rightarrow> nat list" where
  "requested Memcpy_32mb_l3 a =
     [unat (SOURCE_SIZE Memcpy_32mb_l3 a), unat (INPUT_BUFFER_SIZE Memcpy_32mb_l3 a),
      unat (NUM_COPIES Memcpy_32mb_l3 a) * 8]"
| "requested Cache_flushing_clflush a = [unat (SOURCE_SIZE Cache_flushing_clflush a)]"
| "requested Memcpy_clflush a = [unat (SOURCE_SIZE Memcpy_clflush a)]"
| "requested Memcpy_tlb a =
     [unat (SOURCE_SIZE Memcpy_tlb a), unat (INPUT_BUFFER_SIZE Memcpy_tlb a),
      unat (NUM_COPIES Memcpy_tlb a) * 8]"
| "requested Memcpy_cpu_flush a =
     [unat (SOURCE_SIZE Memcpy_cpu_flush a), unat (INPUT_BUFFER_SIZE Memcpy_cpu_flush a),
      unat (NUM_COPIES Memcpy_cpu_flush a) * 8, unat (FLUSH_BUFFER_SIZE Memcpy_cpu_flush a)]"
| "requested Memcpy_vmem_tlb_flush a =
     [unat (SOURCE_SIZE Memcpy_vmem_tlb_flush a), unat (INPUT_BUFFER_SIZE Memcpy_vmem_tlb_flush a),
      unat (NUM_COPIES Memcpy_vmem_tlb_flush a) * 8]"
| "requested Memcpy_baseline_inline a = [unat (SOURCE_SIZE Memcpy_baseline_inline a)]"
| "requested Cache_flushing_flush_std_memset a =
     [unat (SOURCE_SIZE Cache_flushing_flush_std_memset a),
      unat (INPUT_BUFFER_SIZE Cache_flushing_flush_std_memset a),
      unat (FLUSH_BUFFER_SIZE Cache_flushing_flush_std_memset a)]"
| "requested Memcpy_cpu_flush_padded a =
     [unat (SOURCE_SIZE Memcpy_cpu_flush_padded a), unat (INPUT_BUFFER_SIZE Memcpy_cpu_flush_padded a),
      unat (NUM_COPIES Memcpy_cpu_flush_padded a) * 8,
      unat (PADDED_FLUSH_BUFFER_SIZE Memcpy_cpu_flush_padded a)]"
| "requested Memcpy_copies_padded a =
     [unat (SOURCE_SIZE Memcpy_copies_padded a), unat (INPUT_BUFFER_SIZE Memcpy_copies_padded a),
      unat (NUM_COPIES Memcpy_copies_padded a) * 8,
      unat (PADDED_FLUSH_BUFFER_SIZE Memcpy_copies_padded a)]"
| "requested Memcpy_wip_flush a =
     [unat (SOURCE_SIZE Memcpy_wip_flush a), unat SCRATCH_BUFFER_SIZE,
      unat (NUM_COPIES Memcpy_wip_flush a) * 8]"

text \<open>
  The accesses of a function stay in its buffers when the replicas fit in the memory
  that holds them and the flush region fits in the flush buffer. The aligned start of
  the input buffer lies up to \<open>alignment_slack\<close> bytes into the allocation, depending on
  where the allocator places it; the conditions below ask for room at every placement.

  \<^item> \<open>input_capacity\<close>: the bytes that hold the replicas, which is the input buffer, and
    the gigabyte at the aligned start of the scratch buffer in \<^verbatim>\<open>memcpy_wip_flush\<close>.
  \<^item> \<open>replicas_fit\<close>: the loop that fills the replicas writes \<open>SOURCE_SIZE\<close> bytes at
    each of the \<open>NUM_COPIES\<close> replica starts.
  \<^item> \<open>reads_fit\<close>: an iteration reads \<^verbatim>\<open>copies[copy_index]\<close>, so there is a replica, and
    it reads up to \<open>read_extent\<close> bytes from the start of any of them.
  \<^item> \<open>flush_fits\<close>: the overwrite covers \<open>FLUSH_BUFFER_SIZE\<close> bytes from offset
    \<open>VMEM_PADDING\<close> of the flush buffer, which has \<open>flush_capacity\<close> bytes: its
    allocated size, and in \<^verbatim>\<open>memcpy_wip_flush\<close> what is left of the two gigabytes of
    scratch memory behind the aligned start and half a gigabyte.
\<close>

fun alignment_slack :: "variant \<Rightarrow> nat" where
  "alignment_slack Memcpy_tlb = unat PAGE_SIZE - 1"
| "alignment_slack Memcpy_cpu_flush = unat PAGE_SIZE - 1"
| "alignment_slack Cache_flushing_flush_std_memset = unat PAGE_SIZE - 1"
| "alignment_slack Memcpy_cpu_flush_padded = unat PAGE_SIZE - 1"
| "alignment_slack Memcpy_copies_padded = unat INPUT_BUFFER_ALIGNMENT - 1"
| "alignment_slack v = 0"

fun input_capacity :: "variant \<Rightarrow> int list \<Rightarrow> nat" where
  "input_capacity Memcpy_wip_flush a = unat ONE_GB"
| "input_capacity v a = unat (INPUT_BUFFER_SIZE v a)"

fun read_extent :: "variant \<Rightarrow> nat" where
  "read_extent Cache_flushing_clflush = 102 + memcpy_size"
| "read_extent Cache_flushing_flush_std_memset = 102 + memcpy_size"
| "read_extent v = 16586 + memcpy_size2"

definition replicas_fit :: "variant \<Rightarrow> int list \<Rightarrow> bool" where
  "replicas_fit v a =
     (NUM_COPIES v a = 0 \<or>
      alignment_slack v + unat (replica_stride v a) * (unat (NUM_COPIES v a) - 1) +
        unat (SOURCE_SIZE v a) \<le> input_capacity v a)"

definition reads_fit :: "variant \<Rightarrow> int list \<Rightarrow> bool" where
  "reads_fit v a =
     (NUM_COPIES v a \<noteq> 0 \<and>
      alignment_slack v + unat (replica_stride v a) * (unat (NUM_COPIES v a) - 1) +
        read_extent v \<le> input_capacity v a)"

fun flush_capacity :: "variant \<Rightarrow> int list \<Rightarrow> nat" where
  "flush_capacity Memcpy_cpu_flush a = unat (FLUSH_BUFFER_SIZE Memcpy_cpu_flush a)"
| "flush_capacity Cache_flushing_flush_std_memset a =
     unat (FLUSH_BUFFER_SIZE Cache_flushing_flush_std_memset a)"
| "flush_capacity Memcpy_cpu_flush_padded a = unat (PADDED_FLUSH_BUFFER_SIZE Memcpy_cpu_flush_padded a)"
| "flush_capacity Memcpy_copies_padded a = unat (PADDED_FLUSH_BUFFER_SIZE Memcpy_copies_padded a)"
| "flush_capacity Memcpy_wip_flush a =
     unat SCRATCH_BUFFER_SIZE - (unat ONE_GB - 1) - unat ONE_GB div 2"
| "flush_capacity v a = 0"

definition flush_fits :: "variant \<Rightarrow> int list \<Rightarrow> bool" where
  "flush_fits v a =
     (unat (VMEM_PADDING v a) + unat (FLUSH_BUFFER_SIZE v a) \<le> flush_capacity v a)"

text \<open>
  A run of a whole function: the operations before the loop, then those of every
  iteration, and the counters. \<open>heap n\<close> says whether the allocator grants a request
  of \<open>n\<close> bytes. In program order, a function is stopped by an argument the
  registration does not supply, by an \<^verbatim>\<open>int64_t\<close> overflow, by the division by
  \<^verbatim>\<open>PADDING_SIZE\<close> in \<^verbatim>\<open>memcpy_vmem_tlb_flush\<close> when that is 0, by a refused allocation,
  and by an access outside its buffers: while it fills the replicas and overwrites the
  flush region before the loop, or when an iteration reads a replica.
\<close>

datatype error =
  Missing_argument | Integer_overflow | Division_by_zero | Bad_alloc | Out_of_bounds

record outcome =
  trace :: "event list"
  reported :: "(string \<times> counter) list"

definition benchmark :: "variant \<Rightarrow> int list \<Rightarrow> (nat \<Rightarrow> bool) \<Rightarrow> (nat \<Rightarrow> uint8_t) \<Rightarrow> (int \<times> int) list \<Rightarrow> error + outcome" where
  "benchmark v a heap mem ts =
     (if length a < num_args v then Inl Missing_argument
      else if \<not> list_all in_int64 (int64_values v a) then Inl Integer_overflow
      else if v = Memcpy_vmem_tlb_flush \<and> PADDING_SIZE a = 0 then Inl Division_by_zero
      else if \<not> list_all heap (requested v a) then Inl Bad_alloc
      else if \<not> (replicas_fit v a \<and> flush_fits v a) then Inl Out_of_bounds
      else if ts \<noteq> [] \<and> \<not> reads_fit v a then Inl Out_of_bounds
      else Inr \<lparr>trace = trace_of v a mem ts, reported = counters v a\<rparr>)"

text \<open>The number a run reports under the name of a counter, if it reports.\<close>

definition reported_amount :: "variant \<Rightarrow> int list \<Rightarrow> (nat \<Rightarrow> bool) \<Rightarrow> (nat \<Rightarrow> uint8_t) \<Rightarrow> (int \<times> int) list \<Rightarrow> string \<Rightarrow> nat option" where
  "reported_amount v a heap mem ts name =
     (case benchmark v a heap mem ts of
        Inl e \<Rightarrow> None
      | Inr r \<Rightarrow> map_option amount (map_of (reported r) name))"

subsection \<open>Reading a trace\<close>

text \<open>
  The source ranges \<open>(src, n)\<close> and the destination ranges \<open>(dst, n)\<close> of the copies of
  a trace, the bytes of the fills, and the pointers of the cache line flushes, each in
  program order.
\<close>

fun copy_reads :: "event list \<Rightarrow> (nat \<times> nat) list" where
  "copy_reads [] = []"
| "copy_reads (Copy dst src n # es) = (src, n) # copy_reads es"
| "copy_reads (e # es) = copy_reads es"

fun copy_regions :: "event list \<Rightarrow> (nat \<times> nat) list" where
  "copy_regions [] = []"
| "copy_regions (Copy dst src n # es) = (dst, n) # copy_regions es"
| "copy_regions (e # es) = copy_regions es"

fun fill_values :: "event list \<Rightarrow> uint8_t list" where
  "fill_values [] = []"
| "fill_values (Fill off n b # es) = b # fill_values es"
| "fill_values (e # es) = fill_values es"

fun flushed :: "event list \<Rightarrow> nat list" where
  "flushed [] = []"
| "flushed (Clflush p # es) = p # flushed es"
| "flushed (e # es) = flushed es"

fun is_fill :: "event \<Rightarrow> bool" where
  "is_fill (Fill off n b) = True"
| "is_fill e = False"

fun is_protect :: "event \<Rightarrow> bool" where
  "is_protect (Protect n p) = True"
| "is_protect e = False"

fun is_copy :: "event \<Rightarrow> bool" where
  "is_copy (Copy dst src n) = True"
| "is_copy e = False"

text \<open>An eviction step is an overwrite of the flush region or a change of access rights.\<close>

definition evicts :: "event list \<Rightarrow> bool" where
  "evicts es = list_ex (\<lambda>e. is_fill e \<or> is_protect e) es"

text \<open>
  The replica an iteration reads starts at \<^verbatim>\<open>copies[copy_index]\<close>, or at the input buffer
  where there is no rotation, and holds \<open>SOURCE_SIZE\<close> bytes of the source. The copies
  of an iteration stay within the replica when every source range lies in it.
\<close>

definition replica_base :: "variant \<Rightarrow> int list \<Rightarrow> locals \<Rightarrow> nat" where
  "replica_base v a s = (if rotating v then copies v a (copy_index s) else 0)"

definition reads_within_replica :: "variant \<Rightarrow> int list \<Rightarrow> locals \<Rightarrow> int \<times> int \<Rightarrow> bool" where
  "reads_within_replica v a s t =
     list_all (\<lambda>(src, n). replica_base v a s \<le> src \<and>
                          src + n \<le> replica_base v a s + unat (SOURCE_SIZE v a))
       (copy_reads (fst (iteration v a s t)))"

text \<open>
  A list of destination ranges is laid out by running sum from \<open>off\<close> when the first
  range starts at \<open>off\<close> and every later one starts where the one before it ends.
  \<open>written_bytes\<close> lists every output offset a list of ranges writes, once for each
  write.
\<close>

fun running_sum_layout :: "nat \<Rightarrow> (nat \<times> nat) list \<Rightarrow> bool" where
  "running_sum_layout off [] = True"
| "running_sum_layout off ((dst, n) # rs) = (dst = off \<and> running_sum_layout (off + n) rs)"

fun written_bytes :: "(nat \<times> nat) list \<Rightarrow> nat list" where
  "written_bytes [] = []"
| "written_bytes ((dst, n) # rs) = [dst..<dst + n] @ written_bytes rs"

text \<open>
  Rounding up to a multiple, as the specification words it for the padded replica size:
  \<open>n\<close> rounded up to a multiple of \<open>p\<close>, and \<open>n\<close> itself when \<open>p\<close> is 0.
\<close>

definition round_up_to_multiple :: "nat \<Rightarrow> nat \<Rightarrow> nat" where
  "round_up_to_multiple n p = (if p = 0 then n else ((n + p - 1) div p) * p)"

section \<open>Properties of the loop\<close>

subsection \<open>The loop as a list of iterations\<close>

lemma fst_run_Cons:
  "fst (run v a s (t # ts)) = fst (iteration v a s t) # fst (run v a (snd (iteration v a s t)) ts)"
  by (simp add: case_prod_beta)

lemma snd_run_Cons:
  "snd (run v a s (t # ts)) = snd (run v a (snd (iteration v a s t)) ts)"
  by (simp add: case_prod_beta)

declare run.simps(2) [simp del]

lemma run_length: "length (fst (run v a s ts)) = length ts"
  by (induction ts arbitrary: s) (simp_all add: fst_run_Cons)

lemma fst_run_append:
  "fst (run v a s (ts @ us)) = fst (run v a s ts) @ fst (run v a (snd (run v a s ts)) us)"
  by (induction ts arbitrary: s) (simp_all add: fst_run_Cons snd_run_Cons)

lemma snd_run_append:
  "snd (run v a s (ts @ us)) = snd (run v a (snd (run v a s ts)) us)"
  by (induction ts arbitrary: s) (simp_all add: snd_run_Cons)

lemma snd_run_snoc:
  "snd (run v a s (ts @ [t])) = snd (iteration v a (snd (run v a s ts)) t)"
  by (simp add: snd_run_append snd_run_Cons)

lemma run_nth:
  "k < length ts \<Longrightarrow>
   fst (run v a s ts) ! k = fst (iteration v a (snd (run v a s (take k ts))) (ts ! k))"
proof (induction ts arbitrary: s k)
  case Nil
  then show ?case by simp
next
  case (Cons t ts)
  show ?case
  proof (cases k)
    case 0
    then show ?thesis by (simp add: fst_run_Cons)
  next
    case (Suc j)
    with Cons.prems have "j < length ts" by simp
    from Cons.IH [OF this] Suc show ?thesis by (simp add: fst_run_Cons snd_run_Cons)
  qed
qed

lemma next_index_unat: "(i :: size_t) < n \<Longrightarrow> unat (i + 1) = Suc (unat i)"
  by unat_arith

lemma next_index_wraps: "(i :: size_t) < n \<Longrightarrow> (n \<le> i + 1) = (Suc (unat i) = unat n)"
  by unat_arith

lemmas iteration_defs =
  memcpy_32mb_l3_iteration_def cache_flushing_clflush_iteration_def memcpy_clflush_iteration_def
  memcpy_tlb_iteration_def memcpy_cpu_flush_iteration_def memcpy_vmem_tlb_flush_iteration_def
  memcpy_baseline_inline_iteration_def cache_flushing_flush_std_memset_iteration_def
  memcpy_cpu_flush_padded_iteration_def memcpy_copies_padded_iteration_def
  memcpy_wip_flush_iteration_def

lemma iteration_copy_index:
  "rotating v \<Longrightarrow>
   copy_index (snd (iteration v a s t)) =
     (if NUM_COPIES v a \<le> copy_index s + 1 then 0 else copy_index s + 1)"
  by (cases v) (simp_all add: iteration_defs Let_def)


lemma prologue_copy_index: "copy_index (snd (prologue v a mem)) = 0"
  by (cases v) simp_all

lemma locals_after_Nil: "locals_after v a mem [] = snd (prologue v a mem)"
  by (simp add: locals_after_def)

lemma locals_after_snoc:
  "locals_after v a mem (ts @ [t]) = snd (iteration v a (locals_after v a mem ts) t)"
  by (simp add: locals_after_def snd_run_snoc)

lemma iteration_events_eq:
  "k < length ts \<Longrightarrow>
   iteration_events v a mem ts k = fst (iteration v a (locals_after v a mem (take k ts)) (ts ! k))"
  by (simp add: iteration_events_def locals_after_def run_nth)

lemma cursor_after:
  assumes "rotating v" and "NUM_COPIES v a \<noteq> 0"
  shows "unat (copy_index (locals_after v a mem ts)) = length ts mod unat (NUM_COPIES v a)"
proof (induction ts rule: rev_induct)
  case Nil
  show ?case by (simp add: locals_after_Nil prologue_copy_index)
next
  case (snoc t ts)
  let ?n = "NUM_COPIES v a" and ?i = "copy_index (locals_after v a mem ts)"
  from assms(2) have pos: "0 < unat ?n" by (simp add: unat_gt_0)
  with snoc have "unat ?i < unat ?n" by simp
  then have less: "?i < ?n" by (simp add: word_less_nat_alt)
  show ?case
  proof (cases "?n \<le> ?i + 1")
    case True
    with less have "Suc (unat ?i) = unat ?n" by (simp add: next_index_wraps)
    with snoc have "Suc (length ts) mod unat ?n = 0" by (simp add: mod_Suc)
    with True assms(1) show ?thesis
      by (simp add: locals_after_snoc iteration_copy_index)
  next
    case False
    with less have "Suc (unat ?i) \<noteq> unat ?n" by (simp add: next_index_wraps)
    with snoc have "Suc (length ts) mod unat ?n = Suc (unat ?i)" by (simp add: mod_Suc)
    with False assms(1) less show ?thesis
      by (simp add: locals_after_snoc iteration_copy_index next_index_unat)
  qed
qed

lemma iteration_evicts:
  "capacity_eviction v \<or> page_protection v \<Longrightarrow>
   evicts (fst (iteration v a s t)) = (NUM_COPIES v a \<le> copy_index s + 1)"
  by (cases v) (simp_all add: iteration_defs Let_def evicts_def three_copies_def four_copies_def)




lemma memset_loop_eq:
  "memset_loop mem ptr bound b = (\<lambda>i. if ptr \<le> i \<and> i < bound then b else mem i)"
proof (induction mem ptr bound b rule: memset_loop.induct)
  case (1 mem ptr bound b)
  show ?case
  proof (cases "ptr < bound")
    case True
    then have "memset_loop mem ptr bound b = memset_loop (mem(ptr := b)) (ptr + 1) bound b"
      by (subst memset_loop.simps) simp
    also have "\<dots> = (\<lambda>i. if ptr + 1 \<le> i \<and> i < bound then b else (mem(ptr := b)) i)"
      by (rule 1 [OF True])
    also from True have "\<dots> = (\<lambda>i. if ptr \<le> i \<and> i < bound then b else mem i)"
      by (intro ext) auto
    finally show ?thesis .
  next
    case False
    then show ?thesis by (subst memset_loop.simps) (auto intro!: ext)
  qed
qed

lemma memset_impl_eq:
  "memset_impl mem buffer n b = (\<lambda>i. if buffer \<le> i \<and> i < buffer + unat n then b else mem i)"
  by (simp add: memset_impl_def memset_loop_eq)

lemma evicting_NUM_COPIES:
  "capacity_eviction v \<Longrightarrow> NUM_COPIES v a = 1000"
  "page_protection v \<Longrightarrow> NUM_COPIES v a = (if v = Memcpy_vmem_tlb_flush then 32 else 1000)"
  by (cases v; simp)+

lemma evicting_rotating: "capacity_eviction v \<or> page_protection v \<Longrightarrow> rotating v"
  by (cases v) simp_all

lemma wraps_iff:
  assumes "rotating v" and "NUM_COPIES v a \<noteq> 0"
  shows "(NUM_COPIES v a \<le> copy_index (locals_after v a mem ts) + 1) =
         (Suc (length ts) mod unat (NUM_COPIES v a) = 0)"
proof -
  let ?n = "NUM_COPIES v a" and ?i = "copy_index (locals_after v a mem ts)"
  from assms(2) have pos: "0 < unat ?n" by (simp add: unat_gt_0)
  have eq: "unat ?i = length ts mod unat ?n" by (rule cursor_after [OF assms])
  with pos have "unat ?i < unat ?n" by simp
  then have "?i < ?n" by (simp add: word_less_nat_alt)
  then have "(?n \<le> ?i + 1) = (Suc (unat ?i) = unat ?n)" by (rule next_index_wraps)
  also from eq pos have "\<dots> = (Suc (length ts) mod unat ?n = 0)" by (simp add: mod_Suc)
  finally show ?thesis .
qed

lemma prologue_fill:
  "capacity_eviction v \<Longrightarrow>
   fill_values (fst (prologue v a mem)) = [0] \<and> flush_value (snd (prologue v a mem)) = 1"
  by (cases v) simp_all

lemma prologue_region:
  "capacity_eviction v \<Longrightarrow> i < unat (FLUSH_BUFFER_SIZE v a) \<Longrightarrow>
   flush_buffer (snd (prologue v a mem)) (unat (VMEM_PADDING v a) + i) = 0"
  by (cases v) (simp_all add: memset_impl_eq std_memset_def)

lemma iteration_fill_values:
  "capacity_eviction v \<Longrightarrow>
   fill_values (fst (iteration v a s t)) =
     (if NUM_COPIES v a \<le> copy_index s + 1 then [flush_value s] else [])"
  by (cases v) (simp_all add: iteration_defs Let_def three_copies_def four_copies_def)

lemma iteration_flush_value:
  "capacity_eviction v \<Longrightarrow>
   flush_value (snd (iteration v a s t)) =
     (if NUM_COPIES v a \<le> copy_index s + 1 then flush_value s + 1 else flush_value s)"
  by (cases v) (simp_all add: iteration_defs Let_def)

lemma iteration_region:
  "capacity_eviction v \<Longrightarrow> i < unat (FLUSH_BUFFER_SIZE v a) \<Longrightarrow>
   flush_buffer (snd (iteration v a s t)) (unat (VMEM_PADDING v a) + i) =
     (if NUM_COPIES v a \<le> copy_index s + 1 then flush_value s
      else flush_buffer s (unat (VMEM_PADDING v a) + i))"
  by (cases v) (simp_all add: iteration_defs Let_def memset_impl_eq std_memset_def)

lemma capacity_wraps_iff:
  assumes "capacity_eviction v"
  shows "(NUM_COPIES v a \<le> copy_index (locals_after v a mem ts) + 1) =
         (Suc (length ts) mod 1000 = 0)"
proof -
  from assms have n: "NUM_COPIES v a = 1000" by (rule evicting_NUM_COPIES)
  from assms have "rotating v" by (simp add: evicting_rotating)
  from wraps_iff [OF this, of a mem ts] n show ?thesis by simp
qed

lemma flush_value_after:
  assumes "capacity_eviction v"
  shows "flush_value (locals_after v a mem ts) = of_nat (Suc (length ts div 1000))"
proof (induction ts rule: rev_induct)
  case Nil
  from assms show ?case by (simp add: locals_after_Nil prologue_fill)
next
  case (snoc t ts)
  with assms show ?case
    by (simp add: locals_after_snoc iteration_flush_value capacity_wraps_iff div_Suc)
qed

lemma trace_of_Nil: "trace_of v a mem [] = fst (prologue v a mem)"
  by (simp add: trace_of_def)

lemma trace_of_snoc:
  "trace_of v a mem (ts @ [t]) =
     trace_of v a mem ts @ fst (iteration v a (locals_after v a mem ts) t)"
  by (simp add: trace_of_def locals_after_def fst_run_append fst_run_Cons)

lemma fill_values_append: "fill_values (es @ fs) = fill_values es @ fill_values fs"
  by (induction es rule: fill_values.induct) simp_all

lemma fill_values_trace:
  assumes "capacity_eviction v"
  shows "fill_values (trace_of v a mem ts) = map of_nat [0..<Suc (length ts div 1000)]"
proof (induction ts rule: rev_induct)
  case Nil
  from assms show ?case by (simp add: trace_of_Nil prologue_fill)
next
  case (snoc t ts)
  with assms show ?case
    by (simp add: trace_of_snoc fill_values_append iteration_fill_values capacity_wraps_iff
        flush_value_after div_Suc)
qed

lemma flush_region_after:
  assumes "capacity_eviction v" and "i < unat (FLUSH_BUFFER_SIZE v a)"
  shows "flush_buffer (locals_after v a mem ts) (unat (VMEM_PADDING v a) + i) =
         of_nat (length ts div 1000)"
proof (induction ts rule: rev_induct)
  case Nil
  from assms show ?case by (simp add: locals_after_Nil prologue_region)
next
  case (snoc t ts)
  with assms show ?case
    by (simp add: locals_after_snoc iteration_region capacity_wraps_iff flush_value_after div_Suc)
qed


lemma registered_NUM_COPIES: "a \<in> set (registered v) \<Longrightarrow> NUM_COPIES v a \<noteq> 0"
  by (cases v) (auto simp: L3_SIZE_def TOTAL_COPY_SIZE_def state_range_def)

lemma trace_of_iterations:
  "trace_of v a mem ts =
     fst (prologue v a mem) @ concat (map (iteration_events v a mem ts) [0..<length ts])"
proof -
  let ?ess = "fst (run v a (snd (prologue v a mem)) ts)"
  have "map (iteration_events v a mem ts) [0..<length ts] = map ((!) ?ess) [0..<length ?ess]"
    by (simp add: iteration_events_def run_length)
  then show ?thesis by (simp add: trace_of_def map_nth)
qed

lemma copy_reads_append [simp]: "copy_reads (es @ fs) = copy_reads es @ copy_reads fs"
  by (induction es rule: copy_reads.induct) simp_all

lemma copy_regions_append [simp]: "copy_regions (es @ fs) = copy_regions es @ copy_regions fs"
  by (induction es rule: copy_regions.induct) simp_all

lemma flushed_append [simp]: "flushed (es @ fs) = flushed es @ flushed fs"
  by (induction es rule: flushed.induct) simp_all

lemma copy_reads_Clflush [simp]: "copy_reads (map Clflush ps) = []"
  by (induction ps) simp_all

lemma copy_regions_Clflush [simp]: "copy_regions (map Clflush ps) = []"
  by (induction ps) simp_all

lemma flushed_Clflush [simp]: "flushed (map Clflush ps) = ps"
  by (induction ps) simp_all

lemma reads_within_replica_others:
  "v \<noteq> Memcpy_vmem_tlb_flush \<Longrightarrow> reads_within_replica v a s t"
  by (cases v)
    (simp_all add: reads_within_replica_def replica_base_def iteration_defs Let_def
      three_copies_def four_copies_def PAGE_SIZE_def
      memcpy_size_def memcpy_size0_def memcpy_size1_def memcpy_size2_def memcpy_size3_def)

subsection \<open>The layout of the copies\<close>

lemma written_bytes_layout:
  "running_sum_layout off rs \<Longrightarrow> written_bytes rs = [off..<off + sum_list (map snd rs)]"
proof (induction rs arbitrary: off)
  case Nil
  then show ?case by simp
next
  case (Cons r rs)
  obtain d n where r: "r = (d, n)" by (cases r)
  with Cons.prems have d: "d = off" and rest: "running_sum_layout (off + n) rs" by simp_all
  let ?m = "sum_list (map snd rs)"
  from Cons.IH [OF rest] have ih: "written_bytes rs = [off + n..<off + n + ?m]" .
  have "[off..<off + n + ?m] = [off..<off + n] @ [off + n..<off + n + ?m]"
    by (rule upt_add_eq_append) simp
  with r d ih show ?case by (simp only: written_bytes.simps list.map sum_list.Cons snd_conv add.assoc)
qed


lemmas copy_sizes =
  memcpy_size_def memcpy_size0_def memcpy_size1_def memcpy_size2_def memcpy_size3_def

lemma iteration_copy_regions:
  "copy_regions (fst (iteration v a s t)) =
     (if v = Memcpy_copies_padded then [(0, 401), (401, 801), (1503, 501), (1202, 301)]
      else if v = Cache_flushing_clflush \<or> v = Cache_flushing_flush_std_memset then [(0, 401)]
      else [(0, 401), (401, 801), (1202, 301)])"
  by (cases v) (simp_all add: iteration_defs Let_def three_copies_def four_copies_def copy_sizes)

lemma written_bytes_tiles:
  assumes "running_sum_layout 0 rs"
  shows "distinct (written_bytes rs) \<and> set (written_bytes rs) = {0..<sum_list (map snd rs)}"
proof -
  from written_bytes_layout [OF assms] have "written_bytes rs = [0..<sum_list (map snd rs)]"
    by simp
  then show ?thesis by (simp only: distinct_upt set_upt simp_thms)
qed

lemma four_copies_tile:
  "distinct (written_bytes [(0, 401), (401, 801), (1503, 501), (1202, 301)]) \<and>
   set (written_bytes [(0, 401), (401, 801), (1503, 501), (1202, 301)]) = {0..<2004}"
proof -
  have w: "written_bytes [(0, 401), (401, 801), (1503, 501), (1202, 301)] =
      [0..<401] @ [401..<1202] @ [1503..<2004] @ [1202..<1503]"
    by (simp del: upt_rec_numeral)
  have d: "distinct ([0..<401] @ [401..<1202] @ [1503..<2004] @ [1202..<1503::nat])"
    by (simp del: upt_rec_numeral add: Int_def)
  have s: "set ([0..<401] @ [401..<1202] @ [1503..<2004] @ [1202..<1503::nat]) = {0..<2004}"
    by (auto simp del: upt_rec_numeral)
  from w d s show ?thesis by (simp only: simp_thms)
qed

subsection \<open>The cursor stays below the replica count\<close>

lemma cursor_less:
  assumes "rotating v" and "NUM_COPIES v a \<noteq> 0"
  shows "copy_index (locals_after v a mem ts) < NUM_COPIES v a"
proof -
  from assms(2) have "0 < unat (NUM_COPIES v a)" by (simp add: unat_gt_0)
  with cursor_after [OF assms, of mem ts] show ?thesis by (simp add: word_less_nat_alt)
qed

lemma reaches_iff: "(i :: size_t) < n \<Longrightarrow> (n \<le> i + 1) = (i + 1 = n)"
  by unat_arith


subsection \<open>Runs that reach the report\<close>

lemma double_shift_small: "n < 2 ^ 53 \<Longrightarrow> double_shift n = 0"
  by (subst double_shift.simps) simp

lemma to_double_small: "n < 2 ^ 53 \<Longrightarrow> to_double n = n"
  by (simp add: to_double_def double_shift_small)

lemma benchmark_Inr:
  "benchmark v a heap mem ts = Inr r \<Longrightarrow>
   r = \<lparr>trace = trace_of v a mem ts, reported = counters v a\<rparr>"
  by (simp add: benchmark_def split: if_splits)

lemmas geometry_defs =
  state_range_def PAGE_SIZE_def CPU_CACHE_SIZE_def ONE_GB_def TOTAL_COPY_SIZE_def L3_SIZE_def
  PADDING_SIZE_def SOURCE_PADDING_SIZE_def INPUT_BUFFER_ALIGNMENT_def PADDED_SOURCE_SIZE_def
  PADDED_FLUSH_BUFFER_SIZE_def SCRATCH_BUFFER_SIZE_def

lemma registered_in_bounds:
  "a \<in> set (registered v) \<Longrightarrow>
   length a = num_args v \<and> list_all in_int64 (int64_values v a) \<and>
   \<not> (v = Memcpy_vmem_tlb_flush \<and> PADDING_SIZE a = 0) \<and>
   replicas_fit v a \<and> flush_fits v a \<and> reads_fit v a"
  by (cases v)
    (auto simp: in_int64_def replicas_fit_def flush_fits_def reads_fit_def geometry_defs copy_sizes)

lemma benchmark_registered:
  assumes "a \<in> set (registered v)" and "list_all heap (requested v a)"
  shows "benchmark v a heap mem ts = Inr \<lparr>trace = trace_of v a mem ts, reported = counters v a\<rparr>"
  using registered_in_bounds [OF assms(1)] assms(2) by (simp add: benchmark_def)

lemma next_fill_differs: "(b :: uint8_t) + 1 \<noteq> b"
  by simp

subsection \<open>The cache line flushes\<close>




subsection \<open>The reported counters\<close>

lemma copies_padded_allocated:
  "map (\<lambda>a. unat (allocated Memcpy_copies_padded a)) (registered Memcpy_copies_padded) =
     [86440016, 89686016, 16846422016]"
  by (simp add: geometry_defs)

lemma reported_amount_registered:
  assumes "a \<in> set (registered v)" and "list_all heap (requested v a)"
  shows "reported_amount v a heap mem ts name = map_option amount (map_of (counters v a) name)"
  by (simp add: reported_amount_def benchmark_registered [OF assms])

lemma speed_counter_eq:
  "speed_counter v = \<lparr>amount = 1503, flags = kIsIterationInvariantRate, oneK = kIs1024\<rparr>"
  by (cases v) simp_all

lemma prologue_events:
  "capacity_eviction v \<Longrightarrow>
   filter is_fill (fst (prologue v a mem)) =
     [Fill (unat (VMEM_PADDING v a)) (unat (FLUSH_BUFFER_SIZE v a)) 0] \<and>
   \<not> list_ex is_copy (fst (prologue v a mem))"
  by (cases v) simp_all

section \<open>The claims\<close>

text \<open>
  C1. Every source offset plus its copy size stays within the replica of
  \<open>SOURCE_SIZE\<close> bytes, in every benchmark and for every swept argument. The code of
  \<^verbatim>\<open>memcpy_vmem_tlb_flush\<close> breaks this: its \<open>SOURCE_SIZE\<close>, commented as rounded to a
  multiple of the page size, is the quotient \<open>(17234 + PADDING_SIZE - 1) / PADDING_SIZE\<close>,
  which is 1 for both registered arguments, so every copy of every iteration reads
  past the one byte of its replica. (\<open>reads_within_replica_others\<close> above: the property
  holds for every other benchmark and all arguments.)
\<close>

theorem vmem_tlb_flush_reads_past_replica:
  "SOURCE_SIZE Memcpy_vmem_tlb_flush [40] = 1 \<and>
   SOURCE_SIZE Memcpy_vmem_tlb_flush [68] = 1 \<and>
   \<not> reads_within_replica Memcpy_vmem_tlb_flush [40] s t \<and>
   \<not> reads_within_replica Memcpy_vmem_tlb_flush [68] s t"
  by (simp add: reads_within_replica_def replica_base_def iteration_defs Let_def
      three_copies_def PADDING_SIZE_def state_range_def
      memcpy_size0_def memcpy_size1_def memcpy_size2_def)

text \<open>
  C5. In \<^verbatim>\<open>memcpy_32mb_l3\<close> the number of replicas is the greatest count whose replicas of
  17234 bytes fit in the assumed cache size, so that the input buffer does not exceed
  it. The code divides the cache size by \<open>TOTAL_COPY_SIZE\<close> (1503) and not by the
  replica size: for the argument 33 it keeps 23022 replicas in a buffer of 396761148
  bytes, more than eleven times the 34603008 bytes of the assumed cache, where 2007
  replicas fit.
\<close>

theorem memcpy_32mb_l3_replicas_exceed_cache:
  "unat (L3_SIZE [33]) = 34603008 \<and>
   unat (NUM_COPIES Memcpy_32mb_l3 [33]) = 23022 \<and>
   unat (INPUT_BUFFER_SIZE Memcpy_32mb_l3 [33]) = 396761148 \<and>
   \<not> unat (NUM_COPIES Memcpy_32mb_l3 [33]) * 17234 \<le> unat (L3_SIZE [33]) \<and>
   unat (L3_SIZE [33]) div 17234 = 2007"
  by (simp add: L3_SIZE_def TOTAL_COPY_SIZE_def state_range_def)

text \<open>
  C2, as stated. The copies of one iteration, in the order they are made, each start
  at the running sum of the sizes of the copies made before them. In
  \<^verbatim>\<open>memcpy_copies_padded\<close> the third copy made (501 bytes) starts at offset 1503, and
  the sizes of the two copies before it sum to 1202.
\<close>

theorem copies_padded_third_copy_counterexample:
  "\<not> running_sum_layout 0
      (copy_regions (fst (iteration Memcpy_copies_padded [0]
         \<lparr>copy_index = 0, flush_value = 1, flush_buffer = (\<lambda>i. 0)\<rparr> (0, 0))))"
  by (simp add: memcpy_copies_padded_iteration_def Let_def four_copies_def copy_sizes)

text \<open>
  C2, as amended. The destination ranges \<open>(offset, size)\<close> of the copies of one
  iteration, in the order of the calls, are \<open>(0, 401), (401, 801), (1202, 301)\<close> in the
  three-copy benchmarks, \<open>(0, 401)\<close> in the two one-copy benchmarks, and
  \<open>(0, 401), (401, 801), (1503, 501), (1202, 301)\<close> in \<^verbatim>\<open>memcpy_copies_padded\<close>. In every
  benchmark they are disjoint and leave no gap: taken in the order of their
  destination offsets, every range starts at the running sum of the sizes of the
  ranges before it, and every offset below the sum of all sizes is written exactly
  once. The footprint is 1503 bytes with three copies, 401 bytes with one copy, and
  2004 bytes in \<^verbatim>\<open>memcpy_copies_padded\<close>, the only benchmark where the order of the calls
  is not the order of the offsets.
\<close>

theorem copies_tile_output_buffer:
  "copy_regions (fst (iteration v a s t)) =
     (if v = Memcpy_copies_padded then [(0, 401), (401, 801), (1503, 501), (1202, 301)]
      else if v = Cache_flushing_clflush \<or> v = Cache_flushing_flush_std_memset then [(0, 401)]
      else [(0, 401), (401, 801), (1202, 301)]) \<and>
   running_sum_layout 0 (sort_key fst (copy_regions (fst (iteration v a s t)))) \<and>
   distinct (written_bytes (copy_regions (fst (iteration v a s t)))) \<and>
   set (written_bytes (copy_regions (fst (iteration v a s t)))) =
     {0..<sum_list (map snd (copy_regions (fst (iteration v a s t))))} \<and>
   sum_list (map snd (copy_regions (fst (iteration v a s t)))) =
     (if v = Memcpy_copies_padded then 2004
      else if v = Cache_flushing_clflush \<or> v = Cache_flushing_flush_std_memset then 401
      else 1503) \<and>
   running_sum_layout 0 (copy_regions (fst (iteration v a s t))) = (v \<noteq> Memcpy_copies_padded)"
proof -
  let ?rs = "copy_regions (fst (iteration v a s t))"
  consider (four) "v = Memcpy_copies_padded"
    | (one) "v \<noteq> Memcpy_copies_padded"
        "v = Cache_flushing_clflush \<or> v = Cache_flushing_flush_std_memset"
    | (three) "v \<noteq> Memcpy_copies_padded"
        "\<not> (v = Cache_flushing_clflush \<or> v = Cache_flushing_flush_std_memset)"
    by blast
  then show ?thesis
  proof cases
    case four
    then have rs: "?rs = [(0, 401), (401, 801), (1503, 501), (1202, 301)]"
      by (simp only: iteration_copy_regions if_True if_False simp_thms)
    have total: "sum_list (map snd ?rs) = 2004" by (simp add: rs)
    have sorted: "running_sum_layout 0 (sort_key fst ?rs)" by (simp add: rs)
    have order: "\<not> running_sum_layout 0 ?rs" by (simp add: rs)
    have "sum_list (map snd [(0 :: nat, 401), (401, 801), (1503, 501), (1202, 301)]) = (2004 :: nat)"
      by simp
    with four_copies_tile have "distinct (written_bytes ?rs)"
      and "set (written_bytes ?rs) = {0..<sum_list (map snd ?rs)}"
      by (simp_all only: rs)
    with four rs total sorted order show ?thesis by (simp only: simp_thms if_True)
  next
    case one
    then have rs: "?rs = [(0, 401)]"
      by (simp only: iteration_copy_regions if_True if_False simp_thms)
    have total: "sum_list (map snd ?rs) = 401" by (simp add: rs)
    have sorted: "running_sum_layout 0 (sort_key fst ?rs)" by (simp add: rs)
    have order: "running_sum_layout 0 ?rs" by (simp add: rs)
    from written_bytes_tiles [OF order] have "distinct (written_bytes ?rs)"
      and "set (written_bytes ?rs) = {0..<sum_list (map snd ?rs)}"
      by blast+
    with one rs total sorted order show ?thesis by (simp only: simp_thms if_True if_False)
  next
    case three
    then have rs: "?rs = [(0, 401), (401, 801), (1202, 301)]"
      by (simp only: iteration_copy_regions if_True if_False simp_thms)
    have total: "sum_list (map snd ?rs) = 1503" by (simp add: rs)
    have sorted: "running_sum_layout 0 (sort_key fst ?rs)" by (simp add: rs)
    have order: "running_sum_layout 0 ?rs" by (simp add: rs)
    from written_bytes_tiles [OF order] have "distinct (written_bytes ?rs)"
      and "set (written_bytes ?rs) = {0..<sum_list (map snd ?rs)}"
      by blast+
    with three rs total sorted order show ?thesis by (simp only: simp_thms if_True if_False)
  qed
qed

text \<open>
  C3. In every benchmark with a rotation cursor and at least one replica (every
  registered argument gives one: \<open>registered_NUM_COPIES\<close>), the cursor is below
  \<open>NUM_COPIES\<close> at the start of every iteration, whatever the number of iterations
  before it. When the increment after the read makes it reach \<open>NUM_COPIES\<close> it is
  0 at the end of that iteration, otherwise it is the incremented value; and in
  the benchmarks that evict, the eviction step is part of exactly the iterations
  where that happens.
\<close>

theorem rotation_cursor_in_range:
  assumes "rotating v" and "NUM_COPIES v a \<noteq> 0"
  shows "copy_index (locals_after v a mem ts) < NUM_COPIES v a \<and>
         copy_index (locals_after v a mem (ts @ [t])) =
           (if copy_index (locals_after v a mem ts) + 1 = NUM_COPIES v a then 0
            else copy_index (locals_after v a mem ts) + 1) \<and>
         (capacity_eviction v \<or> page_protection v \<longrightarrow>
            evicts (iteration_events v a mem (ts @ [t]) (length ts)) =
              (copy_index (locals_after v a mem ts) + 1 = NUM_COPIES v a))"
proof -
  let ?s = "locals_after v a mem ts"
  have less: "copy_index ?s < NUM_COPIES v a" by (rule cursor_less [OF assms])
  then have reach: "(NUM_COPIES v a \<le> copy_index ?s + 1) = (copy_index ?s + 1 = NUM_COPIES v a)"
    by (rule reaches_iff)
  have step: "copy_index (locals_after v a mem (ts @ [t])) =
      (if copy_index ?s + 1 = NUM_COPIES v a then 0 else copy_index ?s + 1)"
    using assms(1) reach by (simp add: locals_after_snoc iteration_copy_index)
  have "iteration_events v a mem (ts @ [t]) (length ts) = fst (iteration v a ?s t)"
    by (simp add: iteration_events_eq)
  then have ev: "capacity_eviction v \<or> page_protection v \<longrightarrow>
      evicts (iteration_events v a mem (ts @ [t]) (length ts)) =
        (copy_index ?s + 1 = NUM_COPIES v a)"
    using reach by (simp add: iteration_evicts)
  show ?thesis by (rule conjI [OF less conjI [OF step ev]])
qed

text \<open>
  The theorem at \<^verbatim>\<open>memcpy_vmem_tlb_flush\<close> with argument 40, after two iterations: the
  cursor is 2.
\<close>

theorem rotation_cursor_in_range_witness:
  "copy_index (locals_after Memcpy_vmem_tlb_flush [40] (\<lambda>i. 0) [(0, 3), (5, 9)]) = 2 \<and>
   copy_index (locals_after Memcpy_vmem_tlb_flush [40] (\<lambda>i. 0) [(0, 3), (5, 9)])
     < NUM_COPIES Memcpy_vmem_tlb_flush [40] \<and>
   copy_index (locals_after Memcpy_vmem_tlb_flush [40] (\<lambda>i. 0) ([(0, 3), (5, 9)] @ [(11, 12)])) =
     (if copy_index (locals_after Memcpy_vmem_tlb_flush [40] (\<lambda>i. 0) [(0, 3), (5, 9)]) + 1 =
         NUM_COPIES Memcpy_vmem_tlb_flush [40]
      then 0
      else copy_index (locals_after Memcpy_vmem_tlb_flush [40] (\<lambda>i. 0) [(0, 3), (5, 9)]) + 1) \<and>
   evicts (iteration_events Memcpy_vmem_tlb_flush [40] (\<lambda>i. 0) ([(0, 3), (5, 9)] @ [(11, 12)])
             (length [(0 :: int, 3 :: int), (5, 9)])) =
     (copy_index (locals_after Memcpy_vmem_tlb_flush [40] (\<lambda>i. 0) [(0, 3), (5, 9)]) + 1 =
        NUM_COPIES Memcpy_vmem_tlb_flush [40])"
proof -
  have r: "rotating Memcpy_vmem_tlb_flush" by simp
  have n: "NUM_COPIES Memcpy_vmem_tlb_flush [40] \<noteq> 0" by simp
  have p: "capacity_eviction Memcpy_vmem_tlb_flush \<or> page_protection Memcpy_vmem_tlb_flush"
    by simp
  have c: "copy_index (locals_after Memcpy_vmem_tlb_flush [40] (\<lambda>i. 0) [(0, 3), (5, 9)]) = 2"
    by (simp add: locals_after_def snd_run_Cons memcpy_vmem_tlb_flush_iteration_def Let_def
        word_le_nat_alt)
  from rotation_cursor_in_range [OF r n, of "\<lambda>i. 0" "[(0, 3), (5, 9)]" "(11, 12)"] p c
  show ?thesis by blast
qed



text \<open>
  C6. In every capacity-eviction benchmark the bytes the overwrites of a run fill the
  flush region with are 0, 1, 2, ... taken modulo 256, in this order: the overwrite
  before the loop uses 0 and every later one uses the value of the one before it plus
  one in \<^verbatim>\<open>uint8_t\<close>. An iteration \<open>k\<close> in which the cursor wraps (\<open>k + 1\<close> a multiple of
  1000) makes one overwrite, with the value \<open>(k + 1) div 1000\<close> modulo 256; after it
  every byte of the flush region holds that value, which is one more than the byte
  held before the iteration and so differs from it.
\<close>

theorem fill_value_counts_evictions:
  assumes "capacity_eviction v"
  shows "fill_values (trace_of v a mem ts) = map of_nat [0..<Suc (length ts div 1000)] \<and>
         (\<forall>j. Suc j < length (fill_values (trace_of v a mem ts)) \<longrightarrow>
              fill_values (trace_of v a mem ts) ! Suc j = fill_values (trace_of v a mem ts) ! j + 1) \<and>
         (\<forall>k i. k < length ts \<and> Suc k mod 1000 = 0 \<and> i < unat (FLUSH_BUFFER_SIZE v a) \<longrightarrow>
              fill_values (iteration_events v a mem ts k) = [of_nat (Suc k div 1000)] \<and>
              flush_buffer (locals_after v a mem (take (Suc k) ts)) (unat (VMEM_PADDING v a) + i) =
                of_nat (Suc k div 1000) \<and>
              flush_buffer (locals_after v a mem (take k ts)) (unat (VMEM_PADDING v a) + i) + 1 =
                flush_buffer (locals_after v a mem (take (Suc k) ts)) (unat (VMEM_PADDING v a) + i) \<and>
              flush_buffer (locals_after v a mem (take (Suc k) ts)) (unat (VMEM_PADDING v a) + i) \<noteq>
                flush_buffer (locals_after v a mem (take k ts)) (unat (VMEM_PADDING v a) + i))"
proof -
  let ?fv = "fill_values (trace_of v a mem ts)"
  have fv: "?fv = map of_nat [0..<Suc (length ts div 1000)]"
    by (rule fill_values_trace [OF assms])
  have succ: "\<forall>j. Suc j < length ?fv \<longrightarrow> ?fv ! Suc j = ?fv ! j + 1"
  proof (intro allI impI)
    fix j assume "Suc j < length ?fv"
    then have j: "Suc j < Suc (length ts div 1000)" by (simp add: fv)
    then have "?fv ! Suc j = of_nat (Suc j)" and "?fv ! j = of_nat j"
      unfolding fv by (simp_all del: upt_Suc)
    then show "?fv ! Suc j = ?fv ! j + 1" by simp
  qed
  have mem: "\<forall>k i. k < length ts \<and> Suc k mod 1000 = 0 \<and> i < unat (FLUSH_BUFFER_SIZE v a) \<longrightarrow>
      fill_values (iteration_events v a mem ts k) = [of_nat (Suc k div 1000)] \<and>
      flush_buffer (locals_after v a mem (take (Suc k) ts)) (unat (VMEM_PADDING v a) + i) =
        of_nat (Suc k div 1000) \<and>
      flush_buffer (locals_after v a mem (take k ts)) (unat (VMEM_PADDING v a) + i) + 1 =
        flush_buffer (locals_after v a mem (take (Suc k) ts)) (unat (VMEM_PADDING v a) + i) \<and>
      flush_buffer (locals_after v a mem (take (Suc k) ts)) (unat (VMEM_PADDING v a) + i) \<noteq>
        flush_buffer (locals_after v a mem (take k ts)) (unat (VMEM_PADDING v a) + i)"
  proof (intro allI impI, elim conjE)
    fix k i
    assume k: "k < length ts" and wrap: "Suc k mod 1000 = 0"
      and i: "i < unat (FLUSH_BUFFER_SIZE v a)"
    let ?before = "flush_buffer (locals_after v a mem (take k ts)) (unat (VMEM_PADDING v a) + i)"
    let ?after = "flush_buffer (locals_after v a mem (take (Suc k) ts)) (unat (VMEM_PADDING v a) + i)"
    from k have lk: "length (take k ts) = k" and lsk: "length (take (Suc k) ts) = Suc k"
      by simp_all
    have before: "?before = of_nat (k div 1000)"
      using flush_region_after [OF assms i, of mem "take k ts"] lk by simp
    have after: "?after = of_nat (Suc k div 1000)"
      using flush_region_after [OF assms i, of mem "take (Suc k) ts"] lsk by simp
    from wrap have step: "Suc k div 1000 = Suc (k div 1000)" by (simp add: div_Suc)
    have "iteration_events v a mem ts k =
        fst (iteration v a (locals_after v a mem (take k ts)) (ts ! k))"
      using k by (rule iteration_events_eq)
    moreover have "NUM_COPIES v a \<le> copy_index (locals_after v a mem (take k ts)) + 1"
      using capacity_wraps_iff [OF assms, of a mem "take k ts"] lk wrap by simp
    moreover have "flush_value (locals_after v a mem (take k ts)) = of_nat (Suc (k div 1000))"
      using flush_value_after [OF assms, of a mem "take k ts"] lk by simp
    ultimately have used: "fill_values (iteration_events v a mem ts k) = [of_nat (Suc k div 1000)]"
      using assms step by (simp add: iteration_fill_values)
    from before after step have inc: "?before + 1 = ?after" by simp
    then have "?after \<noteq> ?before" by (metis next_fill_differs)
    with used after inc
    show "fill_values (iteration_events v a mem ts k) = [of_nat (Suc k div 1000)] \<and>
      ?after = of_nat (Suc k div 1000) \<and> ?before + 1 = ?after \<and> ?after \<noteq> ?before"
      by (intro conjI)
  qed
  show ?thesis by (rule conjI [OF fv conjI [OF succ mem]])
qed

text \<open>
  The theorem at \<^verbatim>\<open>memcpy_cpu_flush\<close> with argument 8, a flush buffer that holds 7
  everywhere when it is allocated, and 1000 iterations: the run fills with 0 and then
  1, and the last iteration changes the first byte of the flush region to 1.
\<close>

theorem fill_value_counts_evictions_witness:
  "fill_values (trace_of Memcpy_cpu_flush [8] (\<lambda>i. 7) (replicate 1000 (0, 1))) = [0, 1] \<and>
   fill_values (iteration_events Memcpy_cpu_flush [8] (\<lambda>i. 7) (replicate 1000 (0, 1)) 999) = [1] \<and>
   flush_buffer (locals_after Memcpy_cpu_flush [8] (\<lambda>i. 7) (take (Suc 999) (replicate 1000 (0, 1))))
     (unat (VMEM_PADDING Memcpy_cpu_flush [8]) + 0) = 1 \<and>
   flush_buffer (locals_after Memcpy_cpu_flush [8] (\<lambda>i. 7) (take (Suc 999) (replicate 1000 (0, 1))))
     (unat (VMEM_PADDING Memcpy_cpu_flush [8]) + 0) \<noteq>
   flush_buffer (locals_after Memcpy_cpu_flush [8] (\<lambda>i. 7) (take 999 (replicate 1000 (0, 1))))
     (unat (VMEM_PADDING Memcpy_cpu_flush [8]) + 0)"
proof -
  let ?ts = "replicate 1000 (0 :: int, 1 :: int)"
  have c: "capacity_eviction Memcpy_cpu_flush" by simp
  note th = fill_value_counts_evictions [OF c, of "[8]" "\<lambda>i. 7" ?ts]
  have "Suc (length ?ts div 1000) = 2" by simp
  then have "map of_nat [0..<Suc (length ?ts div 1000)] = [0, 1 :: uint8_t]"
    by (simp add: upt_rec)
  with th have 1: "fill_values (trace_of Memcpy_cpu_flush [8] (\<lambda>i. 7) ?ts) = [0, 1]"
    by (simp only:)
  have hyp: "999 < length ?ts \<and> Suc 999 mod 1000 = 0 \<and>
      0 < unat (FLUSH_BUFFER_SIZE Memcpy_cpu_flush [8])"
    by (simp add: state_range_def)
  have v: "(of_nat (Suc 999 div 1000) :: uint8_t) = 1" by simp
  from th have "\<forall>k i. k < length ?ts \<and> Suc k mod 1000 = 0 \<and>
        i < unat (FLUSH_BUFFER_SIZE Memcpy_cpu_flush [8]) \<longrightarrow>
      fill_values (iteration_events Memcpy_cpu_flush [8] (\<lambda>i. 7) ?ts k) =
        [of_nat (Suc k div 1000)] \<and>
      flush_buffer (locals_after Memcpy_cpu_flush [8] (\<lambda>i. 7) (take (Suc k) ?ts))
        (unat (VMEM_PADDING Memcpy_cpu_flush [8]) + i) = of_nat (Suc k div 1000) \<and>
      flush_buffer (locals_after Memcpy_cpu_flush [8] (\<lambda>i. 7) (take k ?ts))
        (unat (VMEM_PADDING Memcpy_cpu_flush [8]) + i) + 1 =
      flush_buffer (locals_after Memcpy_cpu_flush [8] (\<lambda>i. 7) (take (Suc k) ?ts))
        (unat (VMEM_PADDING Memcpy_cpu_flush [8]) + i) \<and>
      flush_buffer (locals_after Memcpy_cpu_flush [8] (\<lambda>i. 7) (take (Suc k) ?ts))
        (unat (VMEM_PADDING Memcpy_cpu_flush [8]) + i) \<noteq>
      flush_buffer (locals_after Memcpy_cpu_flush [8] (\<lambda>i. 7) (take k ?ts))
        (unat (VMEM_PADDING Memcpy_cpu_flush [8]) + i)"
    by (rule conjunct2 [OF conjunct2])
  note inst = this [rule_format, OF hyp]
  from inst v
  have 2: "fill_values (iteration_events Memcpy_cpu_flush [8] (\<lambda>i. 7) ?ts 999) = [1]"
    and 3: "flush_buffer (locals_after Memcpy_cpu_flush [8] (\<lambda>i. 7) (take (Suc 999) ?ts))
        (unat (VMEM_PADDING Memcpy_cpu_flush [8]) + 0) = 1"
    by (simp_all only:)
  from inst
  have 4: "flush_buffer (locals_after Memcpy_cpu_flush [8] (\<lambda>i. 7) (take (Suc 999) ?ts))
        (unat (VMEM_PADDING Memcpy_cpu_flush [8]) + 0) \<noteq>
      flush_buffer (locals_after Memcpy_cpu_flush [8] (\<lambda>i. 7) (take 999 ?ts))
        (unat (VMEM_PADDING Memcpy_cpu_flush [8]) + 0)"
    by (rule conjunct2 [OF conjunct2 [OF conjunct2]])
  show ?thesis by (rule conjI [OF 1 conjI [OF 2 conjI [OF 3 4]]])
qed



text \<open>
  C7. \<^verbatim>\<open>memcpy_copies_padded\<close> is registered with the paddings 0, 4096 and
  \<open>16 * 1024 * 1024\<close>. When the allocator grants its requests, the runs with these
  arguments report the \<^verbatim>\<open>Allocated\<close> counters 86440016, 89686016 and 16846422016, which
  do not decrease along the sweep. Each of them is \<open>PADDED_FLUSH_BUFFER_SIZE\<close> plus 1000
  times the padded replica size plus the 2 MiB of alignment slack, and the padded
  replica size of the code is 17234 rounded up to a multiple of the padding, and
  17234 itself for the padding 0.
\<close>

theorem copies_padded_allocated_monotone:
  assumes "\<forall>a \<in> set (registered Memcpy_copies_padded).
             list_all heap (requested Memcpy_copies_padded a)"
  shows "map (\<lambda>a. reported_amount Memcpy_copies_padded a heap mem ts ''Allocated'')
           (registered Memcpy_copies_padded) =
           [Some 86440016, Some 89686016, Some 16846422016] \<and>
         sorted [86440016, 89686016, 16846422016 :: nat] \<and>
         map (\<lambda>p. unat (PADDED_FLUSH_BUFFER_SIZE Memcpy_copies_padded [int p]) +
                  round_up_to_multiple 17234 p * 1000 + 2 * 1024 * 1024)
           [0, 4 * 1024, 16 * 1024 * 1024] = [86440016, 89686016, 16846422016] \<and>
         map (\<lambda>p. unat (PADDED_SOURCE_SIZE [int p])) [0, 4 * 1024, 16 * 1024 * 1024] =
           map (round_up_to_multiple 17234) [0, 4 * 1024, 16 * 1024 * 1024] \<and>
         registered Memcpy_copies_padded = map (\<lambda>p. [int p]) [0, 4 * 1024, 16 * 1024 * 1024]"
proof -
  have amounts: "map (\<lambda>a. map_option amount (map_of (counters Memcpy_copies_padded a) ''Allocated''))
      (registered Memcpy_copies_padded) = [Some 86440016, Some 89686016, Some 16846422016]"
    by (simp add: counters_def geometry_defs to_double_small)
  have "map (\<lambda>a. reported_amount Memcpy_copies_padded a heap mem ts ''Allocated'')
      (registered Memcpy_copies_padded) =
    map (\<lambda>a. map_option amount (map_of (counters Memcpy_copies_padded a) ''Allocated''))
      (registered Memcpy_copies_padded)"
    using assms by (intro map_cong refl reported_amount_registered) blast+
  with amounts have 1: "map (\<lambda>a. reported_amount Memcpy_copies_padded a heap mem ts ''Allocated'')
      (registered Memcpy_copies_padded) = [Some 86440016, Some 89686016, Some 16846422016]"
    by (simp only:)
  have 2: "sorted [86440016, 89686016, 16846422016 :: nat]" by simp
  have 3: "map (\<lambda>p. unat (PADDED_FLUSH_BUFFER_SIZE Memcpy_copies_padded [int p]) +
                  round_up_to_multiple 17234 p * 1000 + 2 * 1024 * 1024)
           [0, 4 * 1024, 16 * 1024 * 1024] = [86440016, 89686016, 16846422016]"
    by (simp add: geometry_defs round_up_to_multiple_def)
  have 4: "map (\<lambda>p. unat (PADDED_SOURCE_SIZE [int p])) [0, 4 * 1024, 16 * 1024 * 1024] =
           map (round_up_to_multiple 17234) [0, 4 * 1024, 16 * 1024 * 1024]"
    by (simp add: geometry_defs round_up_to_multiple_def)
  have 5: "registered Memcpy_copies_padded = map (\<lambda>p. [int p]) [0, 4 * 1024, 16 * 1024 * 1024]"
    by simp
  show ?thesis by (rule conjI [OF 1 conjI [OF 2 conjI [OF 3 conjI [OF 4 5]]]])
qed

text \<open>The theorem with an allocator that grants every request, and one iteration.\<close>

theorem copies_padded_allocated_monotone_witness:
  "map (\<lambda>a. reported_amount Memcpy_copies_padded a (\<lambda>n. True) (\<lambda>i. 0) [(0, 1)] ''Allocated'')
     (registered Memcpy_copies_padded) =
     [Some 86440016, Some 89686016, Some 16846422016]"
proof -
  have "\<forall>a \<in> set (registered Memcpy_copies_padded).
      list_all (\<lambda>n. True) (requested Memcpy_copies_padded a)"
    by (simp add: list_all_iff)
  from copies_padded_allocated_monotone [OF this, of "\<lambda>i. 0" "[(0, 1)]"]
  show ?thesis by (rule conjunct1)
qed

text \<open>
  C8. Every run of every benchmark that reaches its report sets the \<^verbatim>\<open>Speed\<close> counter
  to 1503, flagged as an iteration-invariant rate with 1024 as the unit scale, whatever
  the arguments, the clock readings of the iterations, their number and the number of
  bytes the benchmark copies (1503, 401 or 2004 in an iteration). Every run with
  registered arguments whose allocations are granted reaches the report.
\<close>

theorem speed_counter_is_constant:
  "(benchmark v a heap mem ts = Inr r \<longrightarrow>
      map_of (reported r) ''Speed'' =
        Some \<lparr>amount = 1503, flags = kIsIterationInvariantRate, oneK = kIs1024\<rparr>) \<and>
   (a \<in> set (registered v) \<and> list_all heap (requested v a) \<longrightarrow>
      (\<exists>r'. benchmark v a heap mem ts = Inr r'))"
proof (intro conjI impI)
  assume "benchmark v a heap mem ts = Inr r"
  then have "reported r = counters v a" by (auto dest: benchmark_Inr)
  then show "map_of (reported r) ''Speed'' =
      Some \<lparr>amount = 1503, flags = kIsIterationInvariantRate, oneK = kIs1024\<rparr>"
    by (simp add: counters_def speed_counter_eq)
next
  assume "a \<in> set (registered v) \<and> list_all heap (requested v a)"
  then show "\<exists>r'. benchmark v a heap mem ts = Inr r'"
    by (simp add: benchmark_registered)
qed

text \<open>
  The theorem at \<^verbatim>\<open>cache_flushing_flush_std_memset\<close>, which copies 401 bytes in an
  iteration, with argument 16 and two iterations.
\<close>

theorem speed_counter_is_constant_witness:
  "\<exists>r. benchmark Cache_flushing_flush_std_memset [16] (\<lambda>n. True) (\<lambda>i. 0) [(3, 8), (9, 30)] = Inr r \<and>
       map_of (reported r) ''Speed'' =
         Some \<lparr>amount = 1503, flags = kIsIterationInvariantRate, oneK = kIs1024\<rparr>"
proof -
  have reg: "[16] \<in> set (registered Cache_flushing_flush_std_memset) \<and>
      list_all (\<lambda>n. True) (requested Cache_flushing_flush_std_memset [16])"
    by simp
  have "\<And>r. (benchmark Cache_flushing_flush_std_memset [16] (\<lambda>n. True) (\<lambda>i. 0) [(3, 8), (9, 30)] = Inr r \<longrightarrow>
      map_of (reported r) ''Speed'' =
        Some \<lparr>amount = 1503, flags = kIsIterationInvariantRate, oneK = kIs1024\<rparr>) \<and>
     ([16] \<in> set (registered Cache_flushing_flush_std_memset) \<and>
       list_all (\<lambda>n. True) (requested Cache_flushing_flush_std_memset [16]) \<longrightarrow>
      (\<exists>r'. benchmark Cache_flushing_flush_std_memset [16] (\<lambda>n. True) (\<lambda>i. 0) [(3, 8), (9, 30)] = Inr r'))"
    by (rule speed_counter_is_constant)
  with reg show ?thesis by blast
qed

text \<open>
  C10. In every capacity-eviction benchmark (\<^verbatim>\<open>cache_flushing_flush_std_memset\<close>,
  \<^verbatim>\<open>memcpy_cpu_flush\<close>, \<^verbatim>\<open>memcpy_cpu_flush_padded\<close>, \<^verbatim>\<open>memcpy_copies_padded\<close>,
  \<^verbatim>\<open>memcpy_wip_flush\<close>) the operations of a run are those before the loop followed by
  those of the iterations, and the operations before the loop overwrite the flush
  region exactly once, with 0, and copy nothing: when the first iteration starts,
  every byte of the flush region has been written. Every run with registered
  arguments whose allocations are granted is such a run.
\<close>

theorem eviction_before_first_iteration:
  assumes "capacity_eviction v"
  shows "(benchmark v a heap mem ts = Inr r \<longrightarrow>
            trace r = fst (prologue v a mem) @
                      concat (map (iteration_events v a mem ts) [0..<length ts]) \<and>
            filter is_fill (fst (prologue v a mem)) =
              [Fill (unat (VMEM_PADDING v a)) (unat (FLUSH_BUFFER_SIZE v a)) 0] \<and>
            \<not> list_ex is_copy (fst (prologue v a mem)) \<and>
            (\<forall>i < unat (FLUSH_BUFFER_SIZE v a).
               flush_buffer (snd (prologue v a mem)) (unat (VMEM_PADDING v a) + i) = 0)) \<and>
         (a \<in> set (registered v) \<and> list_all heap (requested v a) \<longrightarrow>
            (\<exists>r'. benchmark v a heap mem ts = Inr r'))"
proof (intro conjI impI allI)
  assume "benchmark v a heap mem ts = Inr r"
  then have "trace r = trace_of v a mem ts" by (auto dest: benchmark_Inr)
  then show "trace r = fst (prologue v a mem) @
      concat (map (iteration_events v a mem ts) [0..<length ts])"
    by (simp only: trace_of_iterations)
next
  from prologue_events [OF assms]
  show "filter is_fill (fst (prologue v a mem)) =
      [Fill (unat (VMEM_PADDING v a)) (unat (FLUSH_BUFFER_SIZE v a)) 0]"
    by (rule conjunct1)
next
  from prologue_events [OF assms]
  show "\<not> list_ex is_copy (fst (prologue v a mem))"
    by (rule conjunct2)
next
  fix i assume "i < unat (FLUSH_BUFFER_SIZE v a)"
  with assms show "flush_buffer (snd (prologue v a mem)) (unat (VMEM_PADDING v a) + i) = 0"
    by (rule prologue_region)
next
  assume "a \<in> set (registered v) \<and> list_all heap (requested v a)"
  then show "\<exists>r'. benchmark v a heap mem ts = Inr r'"
    by (simp add: benchmark_registered)
qed

text \<open>
  The theorem at \<^verbatim>\<open>memcpy_cpu_flush_padded\<close> with argument 16 and a flush buffer that
  holds 7 everywhere when it is allocated: the overwrite before the loop covers the
  32 MiB behind 16 MiB of padding.
\<close>

theorem eviction_before_first_iteration_witness:
  "\<exists>r. benchmark Memcpy_cpu_flush_padded [16] (\<lambda>n. True) (\<lambda>i. 7) [(3, 8)] = Inr r \<and>
       trace r = fst (prologue Memcpy_cpu_flush_padded [16] (\<lambda>i. 7)) @
         concat (map (iteration_events Memcpy_cpu_flush_padded [16] (\<lambda>i. 7) [(3, 8)])
                   [0..<length [(3 :: int, 8 :: int)]]) \<and>
       filter is_fill (fst (prologue Memcpy_cpu_flush_padded [16] (\<lambda>i. 7))) =
         [Fill 16777216 33554432 0] \<and>
       flush_buffer (snd (prologue Memcpy_cpu_flush_padded [16] (\<lambda>i. 7)))
         (unat (VMEM_PADDING Memcpy_cpu_flush_padded [16]) + 5) = 0"
proof -
  let ?b = "benchmark Memcpy_cpu_flush_padded [16] (\<lambda>n. True) (\<lambda>i. 7) [(3, 8)]"
  have c: "capacity_eviction Memcpy_cpu_flush_padded" by simp
  have reg: "[16] \<in> set (registered Memcpy_cpu_flush_padded) \<and>
      list_all (\<lambda>n. True) (requested Memcpy_cpu_flush_padded [16])"
    by simp
  have sizes: "unat (VMEM_PADDING Memcpy_cpu_flush_padded [16]) = 16777216 \<and>
      unat (FLUSH_BUFFER_SIZE Memcpy_cpu_flush_padded [16]) = 33554432"
    by (simp add: geometry_defs)
  then have i: "5 < unat (FLUSH_BUFFER_SIZE Memcpy_cpu_flush_padded [16])" by simp
  note th = eviction_before_first_iteration [OF c, of "[16]" "\<lambda>n. True" "\<lambda>i. 7" "[(3, 8)]"]
  from th reg obtain r where r: "?b = Inr r" by blast
  from th [of r] r
  have 1: "trace r = fst (prologue Memcpy_cpu_flush_padded [16] (\<lambda>i. 7)) @
         concat (map (iteration_events Memcpy_cpu_flush_padded [16] (\<lambda>i. 7) [(3, 8)])
                   [0..<length [(3 :: int, 8 :: int)]])"
    and 2: "filter is_fill (fst (prologue Memcpy_cpu_flush_padded [16] (\<lambda>i. 7))) =
         [Fill (unat (VMEM_PADDING Memcpy_cpu_flush_padded [16]))
            (unat (FLUSH_BUFFER_SIZE Memcpy_cpu_flush_padded [16])) 0]"
    and 3: "\<forall>i < unat (FLUSH_BUFFER_SIZE Memcpy_cpu_flush_padded [16]).
         flush_buffer (snd (prologue Memcpy_cpu_flush_padded [16] (\<lambda>i. 7)))
           (unat (VMEM_PADDING Memcpy_cpu_flush_padded [16]) + i) = 0"
    by blast+
  from 2 sizes have fill: "filter is_fill (fst (prologue Memcpy_cpu_flush_padded [16] (\<lambda>i. 7))) =
         [Fill 16777216 33554432 0]"
    by (simp only:)
  from 3 i have zero: "flush_buffer (snd (prologue Memcpy_cpu_flush_padded [16] (\<lambda>i. 7)))
         (unat (VMEM_PADDING Memcpy_cpu_flush_padded [16]) + 5) = 0"
    by blast
  from r 1 fill zero show ?thesis by blast
qed

end
